theory Spec2Isabelle
  imports Complex_Main "HOL-Library.AList" "HOL-Library.List_Lexorder" "HOL-Library.Char_ord"
    "HOL-Library.Log_Nat"
begin

section \<open>The ontology bundle validator (validate_ontology.py)\<close>

text \<open>
  The validator reads seven YAML modules, optionally checks each against a JSON schema, and
  runs eight consistency rules that append messages to a shared list of errors. The
  embedding below follows the Python text function by function. Python's dynamic typing is
  kept: a lookup on a value that is not a mapping, an iteration over a value that is not
  iterable and an index with an absent key are outcomes of the model, not excluded inputs.
\<close>

subsection \<open>Values\<close>

text \<open>
  A loaded document is a tree of the values that \<open>yaml.safe_load\<close> and \<open>json.loads\<close>
  build: \<open>None\<close>, booleans, integers, floats, strings, lists and dicts. A dict is an
  association list in insertion order whose first binding of a key is the binding of the
  dict; keys are strings, the only keys the validator ever asks for. A float is a finite
  IEEE 754 double, held as the real number it denotes; the infinities and NaN (\<open>.inf\<close>
  and \<open>.nan\<close> in YAML) are not among the values. Strings are lists of characters
  compared by character code.
\<close>

datatype yaml =
    YNull
  | YBool bool
  | YInt int
  | YFloat real
  | YStr string
  | YList "yaml list"
  | YDict "(string \<times> yaml) list"

text \<open>
  The exceptions a run can end with. \<open>Unmodelled\<close> marks the one library behaviour the
  model does not compute: \<open>float\<close> applied to a string, which parses the text.
\<close>

datatype pyerr =
    KeyError
  | AttributeError
  | TypeError
  | ValueError
  | OverflowError
  | JSONDecodeError
  | SchemaError
  | Unmodelled

definition bnd :: "pyerr + 'a \<Rightarrow> ('a \<Rightarrow> pyerr + 'b) \<Rightarrow> pyerr + 'b" where
  "bnd m f = (case m of Inl e \<Rightarrow> Inl e | Inr v \<Rightarrow> f v)"

text \<open>
  A message is the f-string that builds it: its literal text and the values interpolated
  with \<open>str\<close> (\<open>{v}\<close>) or \<open>repr\<close> (\<open>{v!r}\<close>). A string interpolated with \<open>str\<close> is
  its own text and is written into the literal.
\<close>

datatype frag = Lit string | Str yaml | Repr yaml

type_synonym msg = "frag list"

subsection \<open>Python operations on values\<close>

text \<open>\<open>d.get(k, dflt)\<close> on a dict held as an association list.\<close>

definition lookup_or :: "(string \<times> yaml) list \<Rightarrow> string \<Rightarrow> yaml \<Rightarrow> yaml" where
  "lookup_or d k dflt = (case map_of d k of None \<Rightarrow> dflt | Some v \<Rightarrow> v)"

text \<open>\<open>x.get(k, dflt)\<close>: only a dict has the method.\<close>

definition dict_get :: "yaml \<Rightarrow> string \<Rightarrow> yaml \<Rightarrow> pyerr + yaml" where
  "dict_get x k dflt = (case x of YDict d \<Rightarrow> Inr (lookup_or d k dflt) | _ \<Rightarrow> Inl AttributeError)"

text \<open>The chained idiom \<open>x.get(k1, {}).get(k2, {})\<close> \<open>...\<close>, one empty-dict default per step.\<close>

fun get_chain :: "yaml \<Rightarrow> string list \<Rightarrow> pyerr + yaml" where
  "get_chain x [] = Inr x"
| "get_chain x (k # ks) = bnd (dict_get x k (YDict [])) (\<lambda>y. get_chain y ks)"

text \<open>\<open>d[k]\<close> on a dict whose keys are strings.\<close>

definition dict_index :: "(string \<times> 'a) list \<Rightarrow> string \<Rightarrow> pyerr + 'a" where
  "dict_index d k = (case map_of d k of None \<Rightarrow> Inl KeyError | Some v \<Rightarrow> Inr v)"

text \<open>
  The elements a \<open>for\<close> loop or a constructor draws from a value: the items of a list, the
  keys of a dict, the characters of a string.
\<close>

definition py_iter :: "yaml \<Rightarrow> pyerr + yaml list" where
  "py_iter x =
     (case x of
        YList xs \<Rightarrow> Inr xs
      | YDict d \<Rightarrow> Inr (map (\<lambda>kv. YStr (fst kv)) (AList.clearjunk d))
      | YStr s \<Rightarrow> Inr (map (\<lambda>c. YStr [c]) s)
      | _ \<Rightarrow> Inl TypeError)"

definition py_len :: "yaml \<Rightarrow> pyerr + nat" where
  "py_len x =
     (case x of
        YList xs \<Rightarrow> Inr (length xs)
      | YDict d \<Rightarrow> Inr (length (AList.clearjunk d))
      | YStr s \<Rightarrow> Inr (length s)
      | _ \<Rightarrow> Inl TypeError)"

text \<open>Truth value testing (\<open>if x:\<close>).\<close>

fun truthy :: "yaml \<Rightarrow> bool" where
  "truthy YNull = False"
| "truthy (YBool b) = b"
| "truthy (YInt n) = (n \<noteq> 0)"
| "truthy (YFloat r) = (r \<noteq> 0)"
| "truthy (YStr s) = (s \<noteq> [])"
| "truthy (YList xs) = (xs \<noteq> [])"
| "truthy (YDict d) = (d \<noteq> [])"

fun num_val :: "yaml \<Rightarrow> real option" where
  "num_val (YBool b) = Some (if b then 1 else 0)"
| "num_val (YInt n) = Some (of_int n)"
| "num_val (YFloat r) = Some r"
| "num_val _ = None"

lemma size_map_of:
  "map_of d k = Some v \<Longrightarrow> size v < Suc (size_list (size_prod (\<lambda>_. 0) size) d)"
  by (induction d) (auto split: if_splits)

text \<open>
  Python's \<open>==\<close>: numbers (booleans among them) by value, strings and \<open>None\<close> by
  identity of content, lists item by item in order, dicts key by key in any order.
\<close>

function (sequential) py_eq :: "yaml \<Rightarrow> yaml \<Rightarrow> bool" where
  "py_eq (YList xs) b =
     (case b of
        YList ys \<Rightarrow> length xs = length ys \<and> list_all (\<lambda>(x, y). py_eq x y) (zip xs ys)
      | _ \<Rightarrow> False)"
| "py_eq (YDict d) b =
     (case b of
        YDict e \<Rightarrow>
          set (map fst d) = set (map fst e) \<and>
          list_all (\<lambda>k. case map_of d k of
                            None \<Rightarrow> False
                          | Some v \<Rightarrow> (case map_of e k of None \<Rightarrow> False | Some w \<Rightarrow> py_eq v w))
                   (map fst d)
      | _ \<Rightarrow> False)"
| "py_eq (YStr s) b = (b = YStr s)"
| "py_eq YNull b = (b = YNull)"
| "py_eq a b = (case num_val a of None \<Rightarrow> False | Some x \<Rightarrow> num_val b = Some x)"
  by pat_completeness auto
termination
  apply (relation "measure (\<lambda>(a, b). size a)")
    apply simp
   apply (auto dest!: set_zip_leftD simp: less_Suc_eq_le size_list_estimation' dest: size_map_of)
  done

text \<open>\<open>x in xs\<close> for a list and membership in a set: some element equals \<open>x\<close>.\<close>

definition py_in :: "yaml \<Rightarrow> yaml list \<Rightarrow> bool" where
  "py_in x xs = list_ex (\<lambda>y. py_eq y x) xs"

text \<open>
  \<open>k in c\<close> for a string \<open>k\<close>: a key of a dict, an item of a list, a substring of a
  string.
\<close>

definition py_contains :: "yaml \<Rightarrow> string \<Rightarrow> pyerr + bool" where
  "py_contains c k =
     (case c of
        YDict d \<Rightarrow> Inr (map_of d k \<noteq> None)
      | YList xs \<Rightarrow> Inr (py_in (YStr k) xs)
      | YStr s \<Rightarrow> Inr (list_ex (\<lambda>i. take (length k) (drop i s) = k) [0..<Suc (length s)])
      | _ \<Rightarrow> Inl TypeError)"

text \<open>
  Sets hold hashable values, which lists and dicts are not. A set is kept as the list of
  its members without repetition.
\<close>

fun hashable :: "yaml \<Rightarrow> bool" where
  "hashable (YList xs) = False"
| "hashable (YDict d) = False"
| "hashable _ = True"

definition set_add :: "yaml list \<Rightarrow> yaml \<Rightarrow> yaml list" where
  "set_add s x = (if py_in x s then s else s @ [x])"

text \<open>\<open>s.update(xs)\<close> for the items \<open>xs\<close> of an iterable.\<close>

definition set_update :: "yaml list \<Rightarrow> yaml list \<Rightarrow> pyerr + yaml list" where
  "set_update s xs = (if list_all hashable xs then Inr (foldl set_add s xs) else Inl TypeError)"

definition py_set :: "yaml \<Rightarrow> pyerr + yaml list" where
  "py_set x = bnd (py_iter x) (set_update [])"

definition set_minus :: "yaml list \<Rightarrow> yaml list \<Rightarrow> yaml list" where
  "set_minus a b = filter (\<lambda>x. \<not> py_in x b) a"

fun is_str :: "yaml \<Rightarrow> bool" where
  "is_str (YStr s) = True"
| "is_str _ = False"

fun str_of :: "yaml \<Rightarrow> string" where
  "str_of (YStr s) = s"
| "str_of _ = []"

definition num_key :: "yaml \<Rightarrow> real" where
  "num_key x = (case num_val x of None \<Rightarrow> 0 | Some r \<Rightarrow> r)"

text \<open>
  \<open>sorted(s)\<close> for a set \<open>s\<close>: strings order among themselves and numbers among
  themselves; any other comparison raises, and a set of fewer than two members needs none.
\<close>

definition py_sorted :: "yaml list \<Rightarrow> pyerr + yaml list" where
  "py_sorted xs =
     (if list_all is_str xs then Inr (map YStr (sort (map str_of xs)))
      else if list_all (\<lambda>x. num_val x \<noteq> None) xs then Inr (sort_key num_key xs)
      else if length xs \<le> 1 then Inr xs
      else Inl TypeError)"

subsection \<open>Double precision\<close>

text \<open>
  The finite doubles are the reals \<open>m * 2 ^ e\<close> with an integer \<open>m\<close> of magnitude
  below \<open>2 ^ 53\<close> and \<open>e \<ge> -1074\<close>, of magnitude below \<open>2 ^ 1024\<close>. Arithmetic on
  floats and the conversion of an integer give the double nearest to the exact result, a
  tie going to the even significand.

  \<open>ilog2 x\<close> is the integer part of the binary logarithm of a positive \<open>x\<close>, computed
  from the bit length of an integer. \<open>ulp_exponent x\<close> is the exponent of the spacing of
  the doubles around \<open>x\<close>: 52 below that of \<open>x\<close>, and never below -1074, where the
  subnormal numbers lie. \<open>round_double x\<close> is the double nearest to a non-negative
  \<open>x\<close>; the result \<open>double_overflow\<close>, which is \<open>2 ^ 1024\<close>, stands for
  infinity, which is what the hardware returns in its place.
\<close>

definition pow2 :: "int \<Rightarrow> real" where
  "pow2 e = (if 0 \<le> e then 2 ^ nat e else 1 / 2 ^ nat (- e))"

definition ilog2 :: "real \<Rightarrow> int" where
  "ilog2 x = (if 1 \<le> x then bitlen \<lfloor>x\<rfloor> - 1 else - bitlen (\<lceil>1 / x\<rceil> - 1))"

definition round_half_even :: "real \<Rightarrow> int" where
  "round_half_even q =
     (if q - of_int \<lfloor>q\<rfloor> < 1 / 2 then \<lfloor>q\<rfloor>
      else if 1 / 2 < q - of_int \<lfloor>q\<rfloor> then \<lfloor>q\<rfloor> + 1
      else if even \<lfloor>q\<rfloor> then \<lfloor>q\<rfloor>
      else \<lfloor>q\<rfloor> + 1)"

definition ulp_exponent :: "real \<Rightarrow> int" where
  "ulp_exponent x = max (ilog2 x - 52) (- 1074)"

definition double_overflow :: real where
  "double_overflow = 2 ^ 1024"

lemma double_overflow_numeral [code]:
  "double_overflow =
     179769313486231590772930519078902473361797697894230657273430081157732675805500963132708477322407536021120113879871393357658789768814416622492847430639474124377767893424865485276302219601246094119453082952085005768838150682342462881473913110540827237163350510684586298239947245938479716304835356329624224137216"
  by (simp add: double_overflow_def)

definition round_double :: "real \<Rightarrow> real" where
  "round_double x =
     (if x \<le> 0 then 0
      else min double_overflow
             (of_int (round_half_even (x / pow2 (ulp_exponent x))) * pow2 (ulp_exponent x)))"

subsection \<open>Tolerance comparison\<close>

text \<open>
  \<open>float(x)\<close>. An integer is rounded to the nearest double, and one that rounds beyond
  the largest double raises \<open>OverflowError\<close>.
\<close>

definition py_float :: "yaml \<Rightarrow> pyerr + real" where
  "py_float x =
     (case x of
        YBool b \<Rightarrow> Inr (if b then 1 else 0)
      | YInt n \<Rightarrow>
          if round_double \<bar>of_int n\<bar> < double_overflow
          then Inr (if n < 0 then - round_double \<bar>of_int n\<bar> else round_double \<bar>of_int n\<bar>)
          else Inl OverflowError
      | YFloat r \<Rightarrow> Inr r
      | YStr s \<Rightarrow> Inl Unmodelled
      | _ \<Rightarrow> Inl TypeError)"

text \<open>
  \<open>math.isclose(a, b, rel_tol=rel_tol, abs_tol=abs_tol)\<close>, as the standard library computes
  it on finite doubles: a negative tolerance is rejected; equal values are close; otherwise
  \<open>diff = fabs(b - a)\<close> is compared with \<open>fabs(rel_tol * b)\<close>, with
  \<open>fabs(rel_tol * a)\<close> and with \<open>abs_tol\<close>, the difference and the products being
  doubles.
\<close>

definition isclose :: "real \<Rightarrow> real \<Rightarrow> real \<Rightarrow> real \<Rightarrow> pyerr + bool" where
  "isclose a b rel_tol abs_tol =
     (if rel_tol < 0 \<or> abs_tol < 0 then Inl ValueError
      else Inr (a = b
                \<or> round_double \<bar>b - a\<bar> \<le> round_double \<bar>rel_tol * b\<bar>
                \<or> round_double \<bar>b - a\<bar> \<le> round_double \<bar>rel_tol * a\<bar>
                \<or> round_double \<bar>b - a\<bar> \<le> abs_tol))"

text \<open>The default \<open>tol = 1e-9\<close> of \<open>nearly_equal\<close>: the double that the literal denotes.\<close>

definition default_tol :: real where
  "default_tol = 4835703278458517 / 2 ^ 82"

definition nearly_equal :: "yaml \<Rightarrow> yaml \<Rightarrow> real \<Rightarrow> pyerr + bool" where
  "nearly_equal a b tol =
     bnd (py_float a) (\<lambda>x. bnd (py_float b) (\<lambda>y. isclose x y 0 tol))"

text \<open>
  Tolerance equality in the spec's words: the magnitude of the difference of the two
  floats, itself a float, is at or below the bound.
\<close>

definition tolerance_equal :: "real \<Rightarrow> real \<Rightarrow> bool" where
  "tolerance_equal x y = (round_double \<bar>x - y\<bar> \<le> default_tol)"

lemma bnd_cong [fundef_cong]:
  "m = m' \<Longrightarrow> (\<And>v. m' = Inr v \<Longrightarrow> f v = f' v) \<Longrightarrow> bnd m f = bnd m' f'"
  by (auto simp: bnd_def split: sum.splits)

subsection \<open>Expected values\<close>

definition EXPECTED_THRESHOLDS :: "(string \<times> yaml) list" where
  "EXPECTED_THRESHOLDS = [(''gfap_pg_ml'', YFloat 30), (''uchl1_pg_ml'', YFloat 360)]"

definition EXPECTED_KINETICS :: "(string \<times> yaml) list" where
  "EXPECTED_KINETICS =
     [(''gfap_clearance_half_life_hours'', YInt 24),
      (''gfap_clearance_half_life_range_hours'', YList [YInt 24, YInt 36]),
      (''uchl1_clearance_half_life_hours'', YInt 8),
      (''uchl1_clearance_half_life_range_hours'', YList [YInt 7, YInt 9])]"

subsection \<open>Rule 1: threshold consistency\<close>

text \<open>The loop of \<open>get_biomarker_threshold\<close>: the first item whose \<open>id\<close> matches decides.\<close>

fun first_threshold :: "yaml list \<Rightarrow> string \<Rightarrow> pyerr + yaml" where
  "first_threshold [] analyte_id = Inr YNull"
| "first_threshold (item # rest) analyte_id =
     bnd (dict_get item ''id'' YNull) (\<lambda>i.
       if py_eq i (YStr analyte_id) then dict_get item ''ct_threshold'' YNull
       else first_threshold rest analyte_id)"

definition get_biomarker_threshold :: "yaml \<Rightarrow> string \<Rightarrow> pyerr + yaml" where
  "get_biomarker_threshold cbim analyte_id =
     bnd (get_chain cbim [''channels'', ''biomarker'']) (\<lambda>biomarker.
     bnd (dict_get biomarker ''variables'' (YList [])) (\<lambda>variables.
     bnd (py_iter variables) (\<lambda>items. first_threshold items analyte_id)))"

text \<open>
  The statement \<open>if v is None: ... elif not nearly_equal(v, EXPECTED_THRESHOLDS[key]): ...\<close>
  that rules 1 and 4 write out once per threshold; \<open>missing\<close> is the message of the first
  branch and \<open>prefix\<close> the text before the two values in the second.
\<close>

definition check_threshold :: "yaml \<Rightarrow> string \<Rightarrow> msg \<Rightarrow> string \<Rightarrow> msg list \<Rightarrow> pyerr + msg list" where
  "check_threshold v key missing prefix errors =
     (if v = YNull then Inr (errors @ [missing])
      else
        bnd (dict_index EXPECTED_THRESHOLDS key) (\<lambda>expected.
        bnd (nearly_equal v expected default_tol) (\<lambda>close.
          if \<not> close then Inr (errors @ [[Lit prefix, Str v, Lit '' != '', Str expected]])
          else Inr errors)))"

definition validate_threshold_consistency :: "yaml \<Rightarrow> yaml \<Rightarrow> msg list \<Rightarrow> pyerr + msg list" where
  "validate_threshold_consistency cbim provenance errors =
     bnd (get_biomarker_threshold cbim ''gfap_pg_ml'') (\<lambda>cbim_gfap.
     bnd (get_biomarker_threshold cbim ''uchl1_pg_ml'') (\<lambda>cbim_uchl1.
     bnd (get_chain provenance [''threshold_provenance'', ''gfap_ct_threshold'']) (\<lambda>gfap_block.
     bnd (dict_get gfap_block ''value'' YNull) (\<lambda>prov_gfap.
     bnd (get_chain provenance [''threshold_provenance'', ''uchl1_ct_threshold'']) (\<lambda>uchl1_block.
     bnd (dict_get uchl1_block ''value'' YNull) (\<lambda>prov_uchl1.
     bnd (check_threshold cbim_gfap ''gfap_pg_ml''
            [Lit ''cbim_framework.yaml missing biomarker variable 'gfap_pg_ml' ct_threshold'']
            ''GFAP threshold mismatch in cbim_framework.yaml: '' errors) (\<lambda>errors.
     bnd (check_threshold cbim_uchl1 ''uchl1_pg_ml''
            [Lit ''cbim_framework.yaml missing biomarker variable 'uchl1_pg_ml' ct_threshold'']
            ''UCH-L1 threshold mismatch in cbim_framework.yaml: '' errors) (\<lambda>errors.
     bnd (check_threshold prov_gfap ''gfap_pg_ml''
            [Lit ''provenance.yaml missing threshold_provenance.gfap_ct_threshold.value'']
            ''GFAP threshold mismatch in provenance.yaml: '' errors) (\<lambda>errors.
     check_threshold prov_uchl1 ''uchl1_pg_ml''
            [Lit ''provenance.yaml missing threshold_provenance.uchl1_ct_threshold.value'']
            ''UCH-L1 threshold mismatch in provenance.yaml: '' errors)))))))))"

subsection \<open>Rule 2: provenance applicability\<close>

text \<open>The body of the loop over the two fields.\<close>

definition applies_to_check :: "yaml \<Rightarrow> string \<Rightarrow> msg list \<Rightarrow> pyerr + msg list" where
  "applies_to_check threshold_provenance field errors =
     bnd (dict_get threshold_provenance field (YDict [])) (\<lambda>block.
     bnd (dict_get block ''applies_to'' YNull) (\<lambda>applies_to.
       if applies_to = YNull
       then Inr (errors @
              [[Lit (''provenance.yaml missing threshold_provenance.'' @ field @ ''.applies_to'')]])
       else
         bnd (py_set applies_to) (\<lambda>declared.
         bnd (py_sorted (set_minus [YStr ''adult'', YStr ''mild_tbi''] declared)) (\<lambda>missing.
           if missing \<noteq> []
           then Inr (errors @
                  [[Lit (''provenance.yaml '' @ field @ ''.applies_to missing required contexts: ''),
                    Str (YList missing)]])
           else Inr errors))))"

definition validate_provenance_applicability :: "yaml \<Rightarrow> msg list \<Rightarrow> pyerr + msg list" where
  "validate_provenance_applicability provenance errors =
     bnd (dict_get provenance ''threshold_provenance'' (YDict [])) (\<lambda>threshold_provenance.
     bnd (applies_to_check threshold_provenance ''gfap_ct_threshold'' errors) (\<lambda>errors.
     applies_to_check threshold_provenance ''uchl1_ct_threshold'' errors))"

subsection \<open>Rule 3: temporal kinetics\<close>

text \<open>The loop over \<open>EXPECTED_KINETICS.items()\<close> of the legacy branch.\<close>

fun legacy_kinetics :: "(string \<times> yaml) list \<Rightarrow> yaml \<Rightarrow> msg list \<Rightarrow> pyerr + msg list" where
  "legacy_kinetics [] windows errors = Inr errors"
| "legacy_kinetics ((key, expected) # rest) windows errors =
     bnd (dict_get windows key YNull) (\<lambda>actual.
       if actual = YNull
       then legacy_kinetics rest windows (errors @
              [[Lit (''temporal_phases.yaml missing subacute.key_biomarker_windows.'' @ key)]])
       else if \<not> py_eq actual expected
       then legacy_kinetics rest windows (errors @
              [[Lit (''Temporal kinetics mismatch for '' @ key @ '': ''),
                Repr actual, Lit '' != '', Repr expected]])
       else legacy_kinetics rest windows errors)"

text \<open>
  The statement \<open>if r is None: ... elif r != EXPECTED_KINETICS[key]: ...\<close> of the current
  shape, written out once per analyte.
\<close>

definition check_range :: "yaml \<Rightarrow> string \<Rightarrow> msg \<Rightarrow> string \<Rightarrow> msg list \<Rightarrow> pyerr + msg list" where
  "check_range r key missing prefix errors =
     (if r = YNull then Inr (errors @ [missing])
      else
        bnd (dict_index EXPECTED_KINETICS key) (\<lambda>expected.
          if \<not> py_eq r expected
          then Inr (errors @ [[Lit prefix, Repr r, Lit '' != '', Repr expected]])
          else Inr errors))"

definition validate_temporal_kinetics :: "yaml \<Rightarrow> msg list \<Rightarrow> pyerr + msg list" where
  "validate_temporal_kinetics temporal errors =
     bnd (get_chain temporal [''phases'', ''subacute'']) (\<lambda>subacute.
     bnd (dict_get subacute ''key_biomarker_windows'' (YDict [])) (\<lambda>windows.
       if truthy windows then legacy_kinetics EXPECTED_KINETICS windows errors
       else
         bnd (dict_get subacute ''biomarker_clearance_kinetics'' (YDict [])) (\<lambda>clearance.
         bnd (dict_get clearance ''gfap'' (YDict [])) (\<lambda>gfap.
         bnd (dict_get gfap ''half_life_hours'' YNull) (\<lambda>gfap_range.
         bnd (dict_get clearance ''uchl1'' (YDict [])) (\<lambda>uchl1.
         bnd (dict_get uchl1 ''half_life_hours'' YNull) (\<lambda>uchl1_range.
         bnd (check_range gfap_range ''gfap_clearance_half_life_range_hours''
                [Lit ''temporal_phases.yaml missing subacute.biomarker_clearance_kinetics.gfap.half_life_hours'']
                ''Temporal kinetics mismatch for gfap half-life range: '' errors) (\<lambda>errors.
         check_range uchl1_range ''uchl1_clearance_half_life_range_hours''
                [Lit ''temporal_phases.yaml missing subacute.biomarker_clearance_kinetics.uchl1.half_life_hours'']
                ''Temporal kinetics mismatch for uchl1 half-life range: '' errors))))))))"

subsection \<open>Rule 4: temporal decision thresholds\<close>

definition validate_temporal_thresholds :: "yaml \<Rightarrow> msg list \<Rightarrow> pyerr + msg list" where
  "validate_temporal_thresholds temporal errors =
     bnd (dict_get temporal ''biomarker_kinetics'' (YDict [])) (\<lambda>kinetics.
     bnd (get_chain kinetics [''gfap'', ''ct_decision_threshold'']) (\<lambda>gfap_block.
     bnd (dict_get gfap_block ''value'' YNull) (\<lambda>gfap_threshold.
     bnd (get_chain kinetics [''uchl1'', ''ct_decision_threshold'']) (\<lambda>uchl1_block.
     bnd (dict_get uchl1_block ''value'' YNull) (\<lambda>uchl1_threshold.
     bnd (check_threshold gfap_threshold ''gfap_pg_ml''
            [Lit ''temporal_phases.yaml missing biomarker_kinetics.gfap.ct_decision_threshold.value'']
            ''Temporal GFAP threshold mismatch: '' errors) (\<lambda>errors.
     check_threshold uchl1_threshold ''uchl1_pg_ml''
            [Lit ''temporal_phases.yaml missing biomarker_kinetics.uchl1.ct_decision_threshold.value'']
            ''Temporal UCH-L1 threshold mismatch: '' errors))))))"

subsection \<open>Rule 5: canonical phase identifiers of the temporal module\<close>

text \<open>\<open>x.values()\<close> and \<open>x.keys()\<close>: only a dict has the methods.\<close>

definition dict_values :: "yaml \<Rightarrow> pyerr + yaml list" where
  "dict_values x =
     (case x of YDict d \<Rightarrow> Inr (map snd (AList.clearjunk d)) | _ \<Rightarrow> Inl AttributeError)"

definition dict_keys :: "yaml \<Rightarrow> pyerr + yaml list" where
  "dict_keys x =
     (case x of
        YDict d \<Rightarrow> Inr (map (\<lambda>kv. YStr (fst kv)) (AList.clearjunk d))
      | _ \<Rightarrow> Inl AttributeError)"

text \<open>
  The comprehension
  \<open>[payload.get("id") for payload in ... if isinstance(payload, dict) and payload.get("id")]\<close>.
\<close>

definition actual_phase_ids :: "yaml list \<Rightarrow> yaml list" where
  "actual_phase_ids payloads =
     [lookup_or d ''id'' YNull. YDict d \<leftarrow> payloads, truthy (lookup_or d ''id'' YNull)]"

definition validate_temporal_phase_ids :: "yaml \<Rightarrow> msg list \<Rightarrow> pyerr + msg list" where
  "validate_temporal_phase_ids temporal errors =
     bnd (dict_get temporal ''schema_contract'' (YDict [])) (\<lambda>contract.
     bnd (dict_get contract ''canonical_phase_ids'' (YList [])) (\<lambda>canonical.
     bnd (dict_get temporal ''phases'' (YDict [])) (\<lambda>phase_blocks.
     bnd (dict_values phase_blocks) (\<lambda>payloads.
     bnd (py_set canonical) (\<lambda>canonical_set.
     bnd (set_update [] (actual_phase_ids payloads)) (\<lambda>actual_set.
     bnd (py_sorted (set_minus canonical_set actual_set)) (\<lambda>missing.
       if missing \<noteq> []
       then Inr (errors @
              [[Lit ''temporal_phases.yaml missing phase IDs declared in schema_contract: '',
                Str (YList missing)]])
       else Inr errors)))))))"

subsection \<open>Rule 6: phase alignment between the temporal and the imaging module\<close>

text \<open>The inner loop: every element's \<open>temporal_phases\<close> go into the set \<open>used\<close>.\<close>

fun collect_phases :: "yaml list \<Rightarrow> yaml list \<Rightarrow> pyerr + yaml list" where
  "collect_phases [] used = Inr used"
| "collect_phases (cde # rest) used =
     bnd (dict_get cde ''temporal_phases'' (YList [])) (\<lambda>refs.
     bnd (py_iter refs) (\<lambda>items.
     bnd (set_update used items) (\<lambda>used. collect_phases rest used)))"

definition validate_phase_alignment :: "yaml \<Rightarrow> yaml \<Rightarrow> msg list \<Rightarrow> pyerr + msg list" where
  "validate_phase_alignment temporal imaging errors =
     bnd (dict_get temporal ''schema_contract'' (YDict [])) (\<lambda>temporal_contract.
     bnd (dict_get temporal_contract ''canonical_phase_ids'' (YList [])) (\<lambda>temporal_ids.
     bnd (dict_get imaging ''schema_contract'' (YDict [])) (\<lambda>imaging_contract.
     bnd (dict_get imaging_contract ''canonical_phase_ids'' (YList [])) (\<lambda>imaging_ids.
     bnd (Inr (if \<not> py_eq temporal_ids imaging_ids
               then errors @
                 [[Lit ''Canonical phase ID mismatch between temporal_phases.yaml and imaging_cdes.yaml'']]
               else errors)) (\<lambda>errors.
     bnd (py_set temporal_ids) (\<lambda>valid_phase_ids.
     bnd (dict_get imaging ''core_cdes'' (YList [])) (\<lambda>core.
     bnd (py_iter core) (\<lambda>core_items.
     bnd (collect_phases core_items []) (\<lambda>used_phase_ids.
     bnd (dict_get imaging ''supplementary_cdes'' (YList [])) (\<lambda>supplementary.
     bnd (py_iter supplementary) (\<lambda>supplementary_items.
     bnd (collect_phases supplementary_items used_phase_ids) (\<lambda>used_phase_ids.
     bnd (py_sorted (set_minus used_phase_ids valid_phase_ids)) (\<lambda>unknown.
       if unknown \<noteq> []
       then Inr (errors @
              [[Lit ''imaging_cdes.yaml references unknown temporal phase IDs: '',
                Str (YList unknown)]])
       else Inr errors)))))))))))))"

subsection \<open>Rule 7: element counts and the TAPVI identifier\<close>

text \<open>The comprehension \<open>[cde.get("id") for cde in supplementary]\<close>.\<close>

fun cde_ids :: "yaml list \<Rightarrow> pyerr + yaml list" where
  "cde_ids [] = Inr []"
| "cde_ids (cde # rest) =
     bnd (dict_get cde ''id'' YNull) (\<lambda>i. bnd (cde_ids rest) (\<lambda>ids. Inr (i # ids)))"

definition validate_tapvi_and_counts :: "yaml \<Rightarrow> msg list \<Rightarrow> pyerr + msg list" where
  "validate_tapvi_and_counts imaging errors =
     bnd (dict_get imaging ''core_cdes'' (YList [])) (\<lambda>core.
     bnd (dict_get imaging ''supplementary_cdes'' (YList [])) (\<lambda>supplementary.
     bnd (py_len core) (\<lambda>n_core.
     bnd (Inr (if n_core \<noteq> 9
               then errors @ [[Lit ''Expected 9 core CDEs, found '', Str (YInt (int n_core))]]
               else errors)) (\<lambda>errors.
     bnd (py_len supplementary) (\<lambda>n_supplementary.
     bnd (Inr (if n_supplementary \<noteq> 18
               then errors @
                 [[Lit ''Expected 18 supplementary CDEs, found '', Str (YInt (int n_supplementary))]]
               else errors)) (\<lambda>errors.
     bnd (py_iter supplementary) (\<lambda>items.
     bnd (cde_ids items) (\<lambda>ids.
     bnd (Inr (if \<not> py_in (YStr ''tapvi'') ids
               then errors @ [[Lit (''imaging_cdes.yaml missing supplementary CDE id 'tapvi'' @ [CHR 0x27])]]
               else errors)) (\<lambda>errors.
     Inr (if py_in (YStr ''tamvi'') ids
          then errors @ [[Lit (''imaging_cdes.yaml still contains deprecated id 'tamvi'' @ [CHR 0x27])]]
          else errors))))))))))"

subsection \<open>Rule 8: mapping hooks\<close>

definition modules_requiring_mappings :: "string list" where
  "modules_requiring_mappings =
     [''cbim_framework'', ''clinical_entities'', ''imaging_cdes'', ''provenance'',
      ''implementation_science'']"

text \<open>The loop over the module names; \<open>files[name]\<close> is an index, not a \<open>get\<close>.\<close>

fun mapping_flags :: "string list \<Rightarrow> (string \<times> yaml) list \<Rightarrow> msg list \<Rightarrow> pyerr + msg list" where
  "mapping_flags [] files errors = Inr errors"
| "mapping_flags (name # rest) files errors =
     bnd (dict_index files name) (\<lambda>module.
     bnd (dict_get module ''schema_contract'' (YDict [])) (\<lambda>contract.
     bnd (dict_get contract ''mapping_fields_optional'' YNull) (\<lambda>flag.
       mapping_flags rest files
         (if \<not> truthy flag
          then errors @ [[Lit (name @ ''.yaml missing schema_contract.mapping_fields_optional'')]]
          else errors))))"

definition validate_mapping_hooks :: "(string \<times> yaml) list \<Rightarrow> msg list \<Rightarrow> pyerr + msg list" where
  "validate_mapping_hooks files errors =
     bnd (mapping_flags modules_requiring_mappings files errors) (\<lambda>errors.
     bnd (dict_index files ''imaging_cdes'') (\<lambda>imaging.
     bnd (dict_get imaging ''standards_mapping_hooks'' (YDict [])) (\<lambda>hooks.
     bnd (dict_get hooks ''default_mapping_template'' (YDict [])) (\<lambda>template.
     bnd (dict_keys template) (\<lambda>keys.
     bnd (py_sorted (set_minus
            [YStr ''radlex_id'', YStr ''dicom_sr_code'', YStr ''fhir_observation_code'',
             YStr ''omop_concept_id''] keys)) (\<lambda>missing.
       if missing \<noteq> []
       then Inr (errors @
              [[Lit ''imaging_cdes.yaml standards_mapping_hooks.default_mapping_template missing keys: '',
                Str (YList missing)]])
       else Inr errors))))))"

subsection \<open>The orchestrator\<close>

definition YAML_FILES :: "(string \<times> string) list" where
  "YAML_FILES =
     [(''cbim_framework'', ''cbim_framework.yaml''),
      (''clinical_entities'', ''clinical_entities.yaml''),
      (''imaging_cdes'', ''imaging_cdes.yaml''),
      (''temporal_phases'', ''temporal_phases.yaml''),
      (''provenance'', ''provenance.yaml''),
      (''implementation_science'', ''implementation_science.yaml''),
      (''methodology_extraction'', ''methodology_extraction.yaml'')]"

text \<open>
  What a run finds outside itself. A file is absent, or its parser raises (with the text of
  the exception), or it parses to a value. \<open>jsonschema.validate\<close> returns, or raises
  \<open>ValidationError\<close> with a path and a message, or raises another exception, which
  \<open>validate_schema\<close> does not catch.
\<close>

datatype file_state = Absent | Malformed string | Parsed yaml

datatype validation = Conforms | Violation "yaml list" string | InvalidSchema

record env =
  skip_schema :: bool
  jsonschema_installed :: bool
  ontology_file :: "string \<Rightarrow> file_state"
  schema_json :: file_state
  jsonschema_validate :: "yaml \<Rightarrow> yaml \<Rightarrow> validation"

datatype tag = ERROR | WARN | OK

type_synonym line = "tag \<times> msg"

text \<open>\<open>"/".join(str(p) for p in exc.absolute_path)\<close>, and whether that string is empty.\<close>

fun path_text :: "yaml list \<Rightarrow> msg" where
  "path_text [] = []"
| "path_text [p] = [Str p]"
| "path_text (p # ps) = Str p # Lit ''/'' # path_text ps"

definition path_text_empty :: "yaml list \<Rightarrow> bool" where
  "path_text_empty ps = (ps = [] \<or> ps = [YStr []])"

definition validate_schema :: "env \<Rightarrow> string \<Rightarrow> yaml \<Rightarrow> yaml \<Rightarrow> msg list \<Rightarrow> pyerr + msg list" where
  "validate_schema env module_name data schema errors =
     (if \<not> jsonschema_installed env then Inr errors
      else
        bnd (dict_get schema ''$schema'' YNull) (\<lambda>dialect.
        bnd (dict_get schema ''$defs'' (YDict [])) (\<lambda>defs.
          case jsonschema_validate env data
                 (YDict [(''$schema'', dialect),
                         (''$ref'', YStr (''#/$defs/'' @ module_name)),
                         (''$defs'', defs)]) of
            Conforms \<Rightarrow> Inr errors
          | InvalidSchema \<Rightarrow> Inl SchemaError
          | Violation path message \<Rightarrow>
              Inr (errors @
                [[Lit (module_name @ '' schema validation failed'')]
                 @ (if path_text_empty path then []
                    else [Lit ('' at '' @ [CHR 0x27])] @ path_text path @ [Lit [CHR 0x27]])
                 @ [Lit '': '', Lit message]]))))"

text \<open>The loading loop of \<open>main\<close>: every file is tried, whatever happened to the others.\<close>

fun load_modules ::
  "(string \<Rightarrow> file_state) \<Rightarrow> (string \<times> string) list \<Rightarrow> (string \<times> yaml) list \<Rightarrow> msg list
   \<Rightarrow> (string \<times> yaml) list \<times> msg list" where
  "load_modules fs [] loaded errors = (loaded, errors)"
| "load_modules fs ((module_name, filename) # rest) loaded errors =
     (case fs filename of
        Absent \<Rightarrow>
          load_modules fs rest loaded
            (errors @ [[Lit (''Missing required ontology file: '' @ filename)]])
      | Malformed exc \<Rightarrow>
          load_modules fs rest loaded
            (errors @ [[Lit (''YAML parse error in '' @ filename @ '': '' @ exc)]])
      | Parsed data \<Rightarrow> load_modules fs rest (loaded @ [(module_name, data)]) errors)"

text \<open>The loop over \<open>loaded.items()\<close> of the schema stage.\<close>

fun schema_loop ::
  "env \<Rightarrow> yaml \<Rightarrow> yaml \<Rightarrow> (string \<times> yaml) list \<Rightarrow> msg list \<Rightarrow> msg list
   \<Rightarrow> pyerr + (msg list \<times> msg list)" where
  "schema_loop env schema schema_defs [] errors warnings = Inr (errors, warnings)"
| "schema_loop env schema schema_defs ((module_name, data) # rest) errors warnings =
     bnd (py_contains schema_defs module_name) (\<lambda>present.
       if \<not> present
       then schema_loop env schema schema_defs rest errors
              (warnings @
                 [[Lit (''schema.json has no $defs entry for '' @ module_name
                        @ ''; skipping schema validation for this module'')]])
       else
         bnd (validate_schema env module_name data schema errors) (\<lambda>errors.
           schema_loop env schema schema_defs rest errors warnings))"

text \<open>The statement \<open>if not args.skip_schema: ...\<close>; it returns the errors and the warnings.\<close>

definition schema_stage ::
  "env \<Rightarrow> (string \<times> yaml) list \<Rightarrow> msg list \<Rightarrow> msg list \<Rightarrow> pyerr + (msg list \<times> msg list)" where
  "schema_stage env loaded errors warnings =
     (if skip_schema env then Inr (errors, warnings)
      else if \<not> jsonschema_installed env
      then Inr (errors,
                warnings @ [[Lit ''jsonschema package not installed; skipping schema validation'']])
      else
        (case schema_json env of
           Absent \<Rightarrow> Inr (errors @ [[Lit ''schema.json not found'']], warnings)
         | Malformed exc \<Rightarrow> Inl JSONDecodeError
         | Parsed schema \<Rightarrow>
             bnd (dict_get schema ''$defs'' (YDict [])) (\<lambda>schema_defs.
               schema_loop env schema schema_defs loaded errors warnings)))"

text \<open>The eight calls of \<open>main\<close>, in its order.\<close>

definition consistency_rules :: "(string \<times> yaml) list \<Rightarrow> msg list \<Rightarrow> pyerr + msg list" where
  "consistency_rules loaded errors =
     bnd (dict_index loaded ''cbim_framework'') (\<lambda>cbim.
     bnd (dict_index loaded ''provenance'') (\<lambda>provenance.
     bnd (validate_threshold_consistency cbim provenance errors) (\<lambda>errors.
     bnd (dict_index loaded ''provenance'') (\<lambda>provenance.
     bnd (validate_provenance_applicability provenance errors) (\<lambda>errors.
     bnd (dict_index loaded ''temporal_phases'') (\<lambda>temporal.
     bnd (validate_temporal_kinetics temporal errors) (\<lambda>errors.
     bnd (dict_index loaded ''temporal_phases'') (\<lambda>temporal.
     bnd (validate_temporal_thresholds temporal errors) (\<lambda>errors.
     bnd (dict_index loaded ''temporal_phases'') (\<lambda>temporal.
     bnd (validate_temporal_phase_ids temporal errors) (\<lambda>errors.
     bnd (dict_index loaded ''temporal_phases'') (\<lambda>temporal.
     bnd (dict_index loaded ''imaging_cdes'') (\<lambda>imaging.
     bnd (validate_phase_alignment temporal imaging errors) (\<lambda>errors.
     bnd (dict_index loaded ''imaging_cdes'') (\<lambda>imaging.
     bnd (validate_tapvi_and_counts imaging errors) (\<lambda>errors.
     validate_mapping_hooks loaded errors))))))))))))))))"

text \<open>
  \<open>main\<close> returns the lines it printed and its exit code. Everything is printed after the
  last check, so a run that ends with an exception has printed nothing.
\<close>

definition main :: "env \<Rightarrow> pyerr + (line list \<times> int)" where
  "main env =
     (case load_modules (ontology_file env) YAML_FILES [] [] of
        (loaded, errors) \<Rightarrow>
          if errors \<noteq> [] then Inr (map (Pair ERROR) errors, 1)
          else
            bnd (schema_stage env loaded errors []) (\<lambda>(errors, warnings).
            bnd (consistency_rules loaded errors) (\<lambda>errors.
              if errors \<noteq> []
              then Inr (map (Pair WARN) warnings @ map (Pair ERROR) errors, 1)
              else Inr (map (Pair WARN) warnings @
                        [(OK, [Lit ''Ontology validation passed'']),
                         (OK, [Lit ''Threshold constants, kinetics, TAPVI terminology, and phase alignment are consistent''])],
                        0))))"

subsection \<open>What the loading loop leaves behind\<close>

text \<open>
  The messages of the files that failed to load and the modules that did load, each in the
  order of \<open>YAML_FILES\<close>.
\<close>

definition load_failures :: "(string \<Rightarrow> file_state) \<Rightarrow> (string \<times> string) list \<Rightarrow> msg list" where
  "load_failures fs files =
     concat (map (\<lambda>(module_name, filename).
        case fs filename of
          Absent \<Rightarrow> [[Lit (''Missing required ontology file: '' @ filename)]]
        | Malformed exc \<Rightarrow> [[Lit (''YAML parse error in '' @ filename @ '': '' @ exc)]]
        | Parsed data \<Rightarrow> []) files)"

definition parsed_modules :: "(string \<Rightarrow> file_state) \<Rightarrow> (string \<times> string) list \<Rightarrow> (string \<times> yaml) list" where
  "parsed_modules fs files =
     concat (map (\<lambda>(module_name, filename).
        case fs filename of Parsed data \<Rightarrow> [(module_name, data)] | _ \<Rightarrow> []) files)"

fun is_parsed :: "file_state \<Rightarrow> bool" where
  "is_parsed (Parsed data) = True"
| "is_parsed _ = False"

subsection \<open>Example bundles\<close>

text \<open>
  A bundle on which every rule is satisfied, and variants of it. The jsonschema library is
  not installed in \<open>good_env\<close>.
\<close>

definition flag_contract :: yaml where
  "flag_contract = YDict [(''schema_contract'', YDict [(''mapping_fields_optional'', YBool True)])]"

definition good_cbim :: yaml where
  "good_cbim = YDict
     [(''channels'', YDict [(''biomarker'', YDict [(''variables'', YList
         [YDict [(''id'', YStr ''gfap_pg_ml''), (''ct_threshold'', YFloat 30)],
          YDict [(''id'', YStr ''uchl1_pg_ml''), (''ct_threshold'', YInt 360)]])])]),
      (''schema_contract'', YDict [(''mapping_fields_optional'', YBool True)])]"

definition good_provenance :: yaml where
  "good_provenance = YDict
     [(''threshold_provenance'', YDict
         [(''gfap_ct_threshold'', YDict [(''value'', YFloat 30),
             (''applies_to'', YList [YStr ''adult'', YStr ''mild_tbi''])]),
          (''uchl1_ct_threshold'', YDict [(''value'', YFloat 360),
             (''applies_to'', YList [YStr ''mild_tbi'', YStr ''adult'', YStr ''ed''])])]),
      (''schema_contract'', YDict [(''mapping_fields_optional'', YBool True)])]"

definition phase_list :: yaml where
  "phase_list = YList [YStr ''hyperacute'', YStr ''acute'', YStr ''subacute'']"

definition good_temporal :: yaml where
  "good_temporal = YDict
     [(''schema_contract'', YDict [(''canonical_phase_ids'', phase_list)]),
      (''phases'', YDict
         [(''hyperacute'', YDict [(''id'', YStr ''hyperacute'')]),
          (''acute'', YDict [(''id'', YStr ''acute'')]),
          (''subacute'', YDict [(''id'', YStr ''subacute''),
             (''biomarker_clearance_kinetics'', YDict
                [(''gfap'', YDict [(''half_life_hours'', YList [YInt 24, YInt 36])]),
                 (''uchl1'', YDict [(''half_life_hours'', YList [YInt 7, YInt 9])])])])]),
      (''biomarker_kinetics'', YDict
         [(''gfap'', YDict [(''ct_decision_threshold'', YDict [(''value'', YFloat 30)])]),
          (''uchl1'', YDict [(''ct_decision_threshold'', YDict [(''value'', YFloat 360)])])])]"

definition good_imaging :: yaml where
  "good_imaging = YDict
     [(''schema_contract'', YDict [(''canonical_phase_ids'', phase_list),
                                   (''mapping_fields_optional'', YBool True)]),
      (''core_cdes'', YList (replicate 9
          (YDict [(''id'', YStr ''core''), (''temporal_phases'', YList [YStr ''acute''])]))),
      (''supplementary_cdes'', YList (YDict [(''id'', YStr ''tapvi'')]
          # replicate 17 (YDict [(''id'', YStr ''other'')]))),
      (''standards_mapping_hooks'', YDict [(''default_mapping_template'', YDict
          [(''radlex_id'', YNull), (''dicom_sr_code'', YNull),
           (''fhir_observation_code'', YNull), (''omop_concept_id'', YNull)])])]"

definition good_files :: "string \<Rightarrow> file_state" where
  "good_files f =
     (case map_of [(''cbim_framework.yaml'', good_cbim),
                   (''clinical_entities.yaml'', flag_contract),
                   (''imaging_cdes.yaml'', good_imaging),
                   (''temporal_phases.yaml'', good_temporal),
                   (''provenance.yaml'', good_provenance),
                   (''implementation_science.yaml'', flag_contract),
                   (''methodology_extraction.yaml'', YDict [])] f of
        None \<Rightarrow> Absent | Some y \<Rightarrow> Parsed y)"

definition good_env :: env where
  "good_env = \<lparr> skip_schema = False, jsonschema_installed = False, ontology_file = good_files,
                schema_json = Absent, jsonschema_validate = (\<lambda>_ _. Conforms) \<rparr>"

text \<open>
  The framework module with the GFAP threshold 29.5 in place of 30.0, and a run on the
  bundle that holds it with the library installed and no schema file.
\<close>

definition mismatch_cbim :: yaml where
  "mismatch_cbim = YDict
     [(''channels'', YDict [(''biomarker'', YDict [(''variables'', YList
         [YDict [(''id'', YStr ''gfap_pg_ml''), (''ct_threshold'', YFloat (59 / 2))],
          YDict [(''id'', YStr ''uchl1_pg_ml''), (''ct_threshold'', YInt 360)]])])]),
      (''schema_contract'', YDict [(''mapping_fields_optional'', YBool True)])]"




text \<open>The two lines that end a successful run.\<close>

definition OK_LINES :: "line list" where
  "OK_LINES =
     [(OK, [Lit ''Ontology validation passed'']),
      (OK, [Lit ''Threshold constants, kinetics, TAPVI terminology, and phase alignment are consistent''])]"

text \<open>The good bundle without \<open>provenance.yaml\<close>.\<close>

definition one_missing_files :: "string \<Rightarrow> file_state" where
  "one_missing_files f = (if f = ''provenance.yaml'' then Absent else good_files f)"

definition one_missing_env :: env where
  "one_missing_env = \<lparr> skip_schema = False, jsonschema_installed = True,
      ontology_file = one_missing_files, schema_json = Absent,
      jsonschema_validate = (\<lambda>_ _. Conforms) \<rparr>"

text \<open>The good bundle, run with \<open>--skip-schema\<close> and without the library.\<close>

definition skipped_env :: env where
  "skipped_env = \<lparr> skip_schema = True, jsonschema_installed = False, ontology_file = good_files,
                   schema_json = Absent, jsonschema_validate = (\<lambda>_ _. Conforms) \<rparr>"

text \<open>
  A mapping of loaded modules without the provenance module, and one in which the five
  modules of rule 8 are empty.
\<close>

definition four_files :: "(string \<times> yaml) list" where
  "four_files =
     [(''cbim_framework'', good_cbim), (''clinical_entities'', flag_contract),
      (''imaging_cdes'', good_imaging), (''implementation_science'', flag_contract)]"

definition empty_files :: "(string \<times> yaml) list" where
  "empty_files = map (\<lambda>name. (name, YDict [])) modules_requiring_mappings"

text \<open>
  An imaging module with 9 core elements and 17 supplementary elements, \<open>tapvi\<close>
  among them.
\<close>

definition short_supplementary :: "(string \<times> yaml) list list" where
  "short_supplementary =
     [(''id'', YStr ''tapvi'')] # replicate 16 [(''id'', YStr ''other'')]"

definition short_imaging_fields :: "(string \<times> yaml) list" where
  "short_imaging_fields =
     [(''core_cdes'', YList (replicate 9 (YDict [(''id'', YStr ''core'')]))),
      (''supplementary_cdes'', YList (map YDict short_supplementary))]"

subsection \<open>What rule 1 is to report\<close>

text \<open>
  The threshold a list of biomarker variables declares for an analyte (the first variable
  with that identifier decides), and the errors one threshold is to produce: one
  "missing" error when it is absent, one "mismatch" error naming the value and the
  expected constant when its float is not tolerance-equal to the constant, none
  otherwise. It speaks only of thresholds that are absent or that \<open>float\<close> converts.
\<close>

definition declared_threshold :: "(string \<times> yaml) list list \<Rightarrow> string \<Rightarrow> yaml" where
  "declared_threshold vars analyte_id =
     (case find (\<lambda>v. lookup_or v ''id'' YNull = YStr analyte_id) vars of
        None \<Rightarrow> YNull
      | Some v \<Rightarrow> lookup_or v ''ct_threshold'' YNull)"

definition threshold_errors :: "yaml \<Rightarrow> real \<Rightarrow> msg \<Rightarrow> string \<Rightarrow> msg list" where
  "threshold_errors v expected missing prefix =
     (if v = YNull then [missing]
      else
        (case py_float v of
           Inl e \<Rightarrow> []
         | Inr x \<Rightarrow>
             if tolerance_equal x expected then []
             else [[Lit prefix, Str v, Lit '' != '', Str (YFloat expected)]]))"

definition mismatch_variables :: "(string \<times> yaml) list list" where
  "mismatch_variables =
     [[(''id'', YStr ''gfap_pg_ml''), (''ct_threshold'', YFloat (59 / 2))],
      [(''id'', YStr ''uchl1_pg_ml''), (''ct_threshold'', YInt 360)]]"

subsection \<open>What rule 3 is to report\<close>

text \<open>
  The errors for one key of the legacy container and for one half-life range of the
  current shape: one "missing" error when the value is absent, one "mismatch" error when
  it is not equal to the expected value, none otherwise. The documents after them carry
  a legacy container whose four keys match, beside a current-shape field that is not
  even a mapping.
\<close>

definition legacy_key_errors :: "(string \<times> yaml) list \<Rightarrow> string \<times> yaml \<Rightarrow> msg list" where
  "legacy_key_errors w kv =
     (case kv of (key, expected) \<Rightarrow>
        if lookup_or w key YNull = YNull
        then [[Lit (''temporal_phases.yaml missing subacute.key_biomarker_windows.'' @ key)]]
        else if py_eq (lookup_or w key YNull) expected then []
        else [[Lit (''Temporal kinetics mismatch for '' @ key @ '': ''),
               Repr (lookup_or w key YNull), Lit '' != '', Repr expected]])"

definition range_errors :: "yaml \<Rightarrow> yaml \<Rightarrow> msg \<Rightarrow> string \<Rightarrow> msg list" where
  "range_errors r expected missing prefix =
     (if r = YNull then [missing]
      else if py_eq r expected then []
      else [[Lit prefix, Repr r, Lit '' != '', Repr expected]])"

definition legacy_windows :: "(string \<times> yaml) list" where
  "legacy_windows =
     [(''gfap_clearance_half_life_hours'', YInt 24),
      (''gfap_clearance_half_life_range_hours'', YList [YInt 24, YInt 36]),
      (''uchl1_clearance_half_life_hours'', YInt 8),
      (''uchl1_clearance_half_life_range_hours'', YList [YInt 7, YInt 9])]"

definition legacy_subacute :: "(string \<times> yaml) list" where
  "legacy_subacute =
     [(''id'', YStr ''subacute''), (''key_biomarker_windows'', YDict legacy_windows),
      (''biomarker_clearance_kinetics'', YInt 5)]"

definition legacy_phases :: "(string \<times> yaml) list" where
  "legacy_phases = [(''subacute'', YDict legacy_subacute)]"

definition legacy_temporal_fields :: "(string \<times> yaml) list" where
  "legacy_temporal_fields = [(''phases'', YDict legacy_phases)]"

subsection \<open>What rule 6 is to report\<close>

text \<open>
  The phase identifiers an imaging element refers to, and a pair of modules whose canonical
  lists hold the same identifiers in a different order, the imaging module referring to two
  identifiers that are not canonical.
\<close>

definition referenced_phases :: "(string \<times> yaml) list \<Rightarrow> string list" where
  "referenced_phases cde =
     (case lookup_or cde ''temporal_phases'' (YList []) of
        YList ps \<Rightarrow> map str_of ps
      | _ \<Rightarrow> [])"

definition canonical_order :: "string list" where
  "canonical_order = [''hyperacute'', ''acute'', ''subacute'']"

definition reordered_temporal_fields :: "(string \<times> yaml) list" where
  "reordered_temporal_fields =
     [(''schema_contract'', YDict [(''canonical_phase_ids'', YList (map YStr canonical_order))])]"

definition reordered_core :: "(string \<times> yaml) list list" where
  "reordered_core =
     [[(''id'', YStr ''core''),
       (''temporal_phases'', YList (map YStr [''late'', ''acute'', ''chronic'', ''late'']))]]"

definition reordered_imaging_fields :: "(string \<times> yaml) list" where
  "reordered_imaging_fields =
     [(''schema_contract'',
       YDict [(''canonical_phase_ids'', YList (map YStr [''hyperacute'', ''subacute'', ''acute'']))]),
      (''core_cdes'', YList (map YDict reordered_core))]"

subsection \<open>A temporal module with incomplete phase blocks\<close>

text \<open>
  Of the three canonical phases, \<open>subacute\<close> has a block with an empty identifier and
  \<open>acute\<close> a block that is not a mapping; the block \<open>chronic\<close> is not canonical.
\<close>

definition partial_phases :: "(string \<times> yaml) list" where
  "partial_phases =
     [(''hyperacute'', YDict [(''id'', YStr ''hyperacute'')]),
      (''subacute'', YDict [(''id'', YStr [])]),
      (''acute'', YStr ''acute''),
      (''chronic'', YDict [(''id'', YStr ''chronic'')])]"

definition partial_temporal_fields :: "(string \<times> yaml) list" where
  "partial_temporal_fields =
     [(''schema_contract'', YDict [(''canonical_phase_ids'', YList (map YStr canonical_order))]),
      (''phases'', YDict partial_phases)]"

section \<open>Properties\<close>

lemma bnd_Inl [simp]: "bnd (Inl e) f = Inl e"
  by (simp add: bnd_def)

lemma bnd_Inr [simp]: "bnd (Inr v) f = f v"
  by (simp add: bnd_def)

subsection \<open>Rounding to double precision\<close>

text \<open>
  \<open>ilog2\<close> is the integer binary logarithm: a positive \<open>x\<close> lies between
  \<open>2 ^ ilog2 x\<close> and the next power of two. \<open>round_half_even\<close> is within one
  half of its argument, so the multiple of the spacing that \<open>round_double\<close> takes is
  within half the spacing of \<open>x\<close>.
\<close>

lemma pow2_nonneg_exp: "0 \<le> e \<Longrightarrow> pow2 e = 2 ^ nat e"
  by (simp add: pow2_def)

lemma pow2_neg_exp: "e \<le> 0 \<Longrightarrow> pow2 e = 1 / 2 ^ nat (- e)"
  by (cases "e = 0") (simp_all add: pow2_def)

lemma pow2_pos: "0 < pow2 e"
  by (simp add: pow2_def)

lemma ilog2_bounds:
  assumes "0 < x"
  shows "pow2 (ilog2 x) \<le> x \<and> x < pow2 (ilog2 x + 1)"
proof (cases "1 \<le> x")
  case True
  let ?n = "\<lfloor>x\<rfloor>"
  have n: "0 < ?n" using True by simp
  from bitlen_bounds [OF n]
  have lo: "2 ^ nat (bitlen ?n - 1) \<le> ?n" and hi: "?n < 2 ^ nat (bitlen ?n)" by simp_all
  have b1: "1 \<le> bitlen ?n" using n by (simp add: bitlen_alt_def)
  have il: "ilog2 x = bitlen ?n - 1" using True by (simp add: ilog2_def)
  have "real_of_int (2 ^ nat (bitlen ?n - 1)) \<le> real_of_int ?n"
    using lo by (rule of_int_le_iff [THEN iffD2])
  also have "\<dots> \<le> x" by simp
  finally have 1: "pow2 (ilog2 x) \<le> x"
    using b1 by (simp add: il pow2_nonneg_exp)
  have "?n + 1 \<le> 2 ^ nat (bitlen ?n)" using hi by simp
  then have "real_of_int (?n + 1) \<le> real_of_int (2 ^ nat (bitlen ?n))"
    by (rule of_int_le_iff [THEN iffD2])
  then have "real_of_int ?n + 1 \<le> 2 ^ nat (bitlen ?n)" by simp
  moreover have "x < real_of_int ?n + 1" by linarith
  ultimately have "x < 2 ^ nat (bitlen ?n)" by linarith
  then have 2: "x < pow2 (ilog2 x + 1)"
    using b1 by (simp add: il pow2_nonneg_exp)
  from 1 2 show ?thesis ..
next
  case False
  then have x1: "x < 1" by simp
  let ?y = "1 / x"
  let ?n = "\<lceil>?y\<rceil>"
  have y1: "1 < ?y" using assms x1 by simp
  then have n2: "0 < ?n - 1" by (simp add: less_ceiling_iff)
  let ?j = "bitlen (?n - 1)"
  from bitlen_bounds [OF n2]
  have lo: "2 ^ nat (?j - 1) \<le> ?n - 1" and hi: "?n - 1 < 2 ^ nat ?j" by simp_all
  have j1: "1 \<le> ?j" using n2 by (simp add: bitlen_alt_def)
  have il: "ilog2 x = - ?j" using False by (simp add: ilog2_def)
  have "?n \<le> 2 ^ nat ?j" using hi by simp
  then have "real_of_int ?n \<le> real_of_int (2 ^ nat ?j)"
    by (rule of_int_le_iff [THEN iffD2])
  then have "real_of_int ?n \<le> 2 ^ nat ?j" by simp
  moreover have "?y \<le> real_of_int ?n" by (rule le_of_int_ceiling)
  ultimately have "?y \<le> 2 ^ nat ?j" by linarith
  then have "1 \<le> x * 2 ^ nat ?j"
    using assms by (simp add: field_simps)
  then have 1: "pow2 (ilog2 x) \<le> x"
    using j1 by (simp add: il pow2_neg_exp field_simps)
  have "real_of_int (2 ^ nat (?j - 1)) \<le> real_of_int (?n - 1)"
    using lo by (rule of_int_le_iff [THEN iffD2])
  then have "2 ^ nat (?j - 1) \<le> real_of_int ?n - 1" by simp
  moreover have "real_of_int ?n - 1 < ?y" by linarith
  ultimately have "2 ^ nat (?j - 1) < ?y" by linarith
  then have "x * 2 ^ nat (?j - 1) < 1"
    using assms by (simp add: field_simps)
  then have "x < 1 / 2 ^ nat (?j - 1)"
    by (simp add: field_simps)
  moreover have "pow2 (ilog2 x + 1) = 1 / 2 ^ nat (?j - 1)"
    using j1 by (simp add: il pow2_neg_exp)
  ultimately have 2: "x < pow2 (ilog2 x + 1)"
    by (simp only:)
  from 1 2 show ?thesis ..
qed

lemma round_half_even_near: "\<bar>of_int (round_half_even q) - q\<bar> \<le> 1 / 2"
proof -
  have "of_int \<lfloor>q\<rfloor> \<le> q" "q < of_int \<lfloor>q\<rfloor> + 1" by linarith+
  then show ?thesis
    unfolding round_half_even_def by (auto simp: abs_le_iff)
qed

lemma round_double_near:
  assumes "0 < x"
  shows "\<bar>of_int (round_half_even (x / pow2 (ulp_exponent x))) * pow2 (ulp_exponent x) - x\<bar>
         \<le> pow2 (ulp_exponent x) / 2"
proof -
  let ?u = "pow2 (ulp_exponent x)"
  let ?m = "of_int (round_half_even (x / ?u)) :: real"
  have u: "0 < ?u" by (rule pow2_pos)
  have "\<bar>?m * ?u - x\<bar> = \<bar>?m - x / ?u\<bar> * ?u"
    using u by (simp add: abs_mult [symmetric] field_simps)
  also have "\<dots> \<le> 1 / 2 * ?u"
    using round_half_even_near [of "x / ?u"] u by (intro mult_right_mono) simp_all
  finally show ?thesis by simp
qed

subsection \<open>Tolerance\<close>

lemma round_double_0: "round_double 0 = 0"
  by (simp add: round_double_def)

lemma default_tol_pos: "0 < default_tol"
  by (simp add: default_tol_def)

lemma default_tol_literal: "round_double (1 / 10 ^ 9) = default_tol"
  by code_simp

lemma nearly_equal_coerced:
  assumes "py_float a = Inr x" and "py_float b = Inr y"
  shows "nearly_equal a b default_tol = Inr (tolerance_equal x y)"
proof -
  let ?d = "round_double \<bar>y - x\<bar>"
  have "(x = y \<or> ?d \<le> 0 \<or> ?d \<le> default_tol) \<longleftrightarrow> ?d \<le> default_tol"
    using default_tol_pos by (auto simp: round_double_0)
  then show ?thesis
    using assms default_tol_pos
    by (simp add: nearly_equal_def isclose_def tolerance_equal_def round_double_0
        abs_minus_commute)
qed

text \<open>
  C5. \<open>nearly_equal\<close> converts both operands with \<open>float\<close> before it compares them.
  When the two conversions succeed, with the floats \<open>x\<close> and \<open>y\<close>, the call with the
  default tolerance returns normally, and it holds exactly when the magnitude of the
  difference of \<open>x\<close> and \<open>y\<close>, taken in double precision, is at most the tolerance:
  the relative tolerance is zero and contributes nothing. The tolerance is the double that
  \<open>1e-9\<close> denotes. The answer does not depend on the order of the operands.
\<close>

theorem nearly_equal_abs_tolerance:
  assumes "py_float a = Inr x" and "py_float b = Inr y"
  shows "nearly_equal a b default_tol = Inr (round_double \<bar>x - y\<bar> \<le> default_tol)
         \<and> nearly_equal b a default_tol = nearly_equal a b default_tol
         \<and> default_tol = round_double (1 / 10 ^ 9)"
proof -
  have ab: "nearly_equal a b default_tol = Inr (round_double \<bar>x - y\<bar> \<le> default_tol)"
    using nearly_equal_coerced [OF assms] by (simp add: tolerance_equal_def)
  have ba: "nearly_equal b a default_tol = Inr (round_double \<bar>y - x\<bar> \<le> default_tol)"
    using nearly_equal_coerced [OF assms(2) assms(1)] by (simp add: tolerance_equal_def)
  have sym: "nearly_equal b a default_tol = nearly_equal a b default_tol"
    unfolding ab ba by (simp add: abs_minus_commute)
  show ?thesis by (intro conjI ab sym default_tol_literal [symmetric])
qed

theorem nearly_equal_abs_tolerance_witness:
  "py_float (YFloat (59 / 2)) = Inr (59 / 2) \<and> py_float (YFloat 30) = Inr 30
   \<and> py_float (YInt (2 ^ 53 + 1)) = Inr (2 ^ 53) \<and> py_float (YInt (2 ^ 53)) = Inr (2 ^ 53)
   \<and> nearly_equal (YFloat (59 / 2)) (YFloat 30) default_tol = Inr False
   \<and> nearly_equal (YFloat 30) (YFloat (59 / 2)) default_tol = Inr False
   \<and> nearly_equal (YInt (2 ^ 53 + 1)) (YInt (2 ^ 53)) default_tol = Inr True"
proof -
  have f1: "py_float (YFloat (59 / 2)) = Inr (59 / 2)"
    and f2: "py_float (YFloat 30) = Inr 30"
    by (simp_all add: py_float_def)
  have f3: "py_float (YInt (2 ^ 53 + 1)) = Inr (2 ^ 53)"
    and f4: "py_float (YInt (2 ^ 53)) = Inr (2 ^ 53)"
    by code_simp+
  have d1: "\<not> round_double \<bar>59 / 2 - 30\<bar> \<le> default_tol"
    by code_simp
  have d2: "round_double \<bar>2 ^ 53 - 2 ^ 53\<bar> \<le> default_tol"
    by (simp add: round_double_0 default_tol_def)
  note far = nearly_equal_abs_tolerance [OF f1 f2]
  note big = nearly_equal_abs_tolerance [OF f3 f4]
  have r1: "nearly_equal (YFloat (59 / 2)) (YFloat 30) default_tol = Inr False"
    using conjunct1 [OF far] d1 by simp
  have r2: "nearly_equal (YFloat 30) (YFloat (59 / 2)) default_tol = Inr False"
    using conjunct1 [OF conjunct2 [OF far]] r1 by simp
  have r3: "nearly_equal (YInt (2 ^ 53 + 1)) (YInt (2 ^ 53)) default_tol = Inr True"
    using conjunct1 [OF big] d2 by simp
  show ?thesis by (intro conjI f1 f2 f3 f4 r1 r2 r3)
qed

subsection \<open>The loading loop and the rules as functions of the error list\<close>

text \<open>
  The loading loop computes \<open>parsed_modules\<close> and \<open>load_failures\<close>. Every rule
  that returns has only appended to the list of errors it was given.
\<close>

lemma load_modules_eq:
  "load_modules fs files loaded errors =
     (loaded @ parsed_modules fs files, errors @ load_failures fs files)"
  by (induction files arbitrary: loaded errors)
     (auto simp: load_failures_def parsed_modules_def split: file_state.splits)

lemma length_load_failures:
  "length (load_failures fs files) = length (filter (\<lambda>(m, f). \<not> is_parsed (fs f)) files)"
  by (induction files) (auto simp: load_failures_def split: file_state.splits)















subsection \<open>Load failures\<close>

text \<open>
  C8. The loading loop tries all seven files of \<open>YAML_FILES\<close>: its errors are the
  messages of every file that is absent or does not parse, one per failure, whatever
  happened to the files before. When there is at least one, \<open>main\<close> prints exactly
  these messages as \<open>[ERROR]\<close> lines and returns 1; nothing of the schema or of the
  loaded modules enters the result, so no schema check and no rule has run.
\<close>

theorem main_halts_on_load_failure:
  assumes "load_failures (ontology_file env) YAML_FILES \<noteq> []"
  shows "main env = Inr (map (Pair ERROR) (load_failures (ontology_file env) YAML_FILES), 1)
         \<and> length (load_failures (ontology_file env) YAML_FILES)
             = length (filter (\<lambda>(m, f). \<not> is_parsed (ontology_file env f)) YAML_FILES)"
  using assms by (simp add: main_def load_modules_eq length_load_failures)

theorem main_halts_on_load_failure_witness:
  "load_failures (ontology_file one_missing_env) YAML_FILES \<noteq> []
   \<and> main one_missing_env =
       Inr ([(ERROR, [Lit ''Missing required ontology file: provenance.yaml''])], 1)"
proof -
  have f: "load_failures (ontology_file one_missing_env) YAML_FILES
           = [[Lit ''Missing required ontology file: provenance.yaml'']]"
    by code_simp
  then have h: "load_failures (ontology_file one_missing_env) YAML_FILES \<noteq> []"
    by simp
  show ?thesis using main_halts_on_load_failure [OF h] h f by simp
qed

subsection \<open>A missing schema file\<close>









subsection \<open>Exit code, warnings and the missing library\<close>

lemma tags_of_lines: "fst ` Pair t ` set xs = (if xs = [] then {} else {t})"
  by (cases xs) (auto simp: image_iff)

lemma main_outcome:
  assumes "main env = Inr (out, code)"
  shows "(\<exists>errors. errors \<noteq> [] \<and> out = map (Pair ERROR) errors \<and> code = 1)
         \<or> (\<exists>warnings errors. errors \<noteq> [] \<and> code = 1
               \<and> out = map (Pair WARN) warnings @ map (Pair ERROR) errors)
         \<or> (\<exists>warnings. code = 0 \<and> out = map (Pair WARN) warnings @ OK_LINES)"
  using assms
  by (auto simp: main_def bnd_def OK_LINES_def split: prod.splits if_splits sum.splits)

text \<open>
  C9, as amended. A run that returns has exit code 0 or 1, and 0 exactly when it printed no
  \<open>[ERROR]\<close> line; \<open>[WARN]\<close> lines do not enter the decision. The two
  \<open>[OK]\<close> lines are printed exactly by the runs that return 0, after the warnings.
  When every module loads, the skip flag is not given and the jsonschema library is not
  installed, the run emits exactly one warning, reads neither the schema file nor the
  validator, and its errors and exit code are those of the eight rules alone. On the
  bundle \<open>good_env\<close>, where all values match, this is one \<open>[WARN]\<close> line, two
  \<open>[OK]\<close> lines, no \<open>[ERROR]\<close> line and exit code 0.
\<close>

theorem exit_code_follows_errors:
  "(main env = Inr (out, code) \<longrightarrow>
      (code = 0 \<longleftrightarrow> ERROR \<notin> fst ` set out) \<and> (code = 0 \<or> code = 1)
      \<and> (OK \<in> fst ` set out \<longleftrightarrow> code = 0)
      \<and> (code = 0 \<longrightarrow> filter (\<lambda>l. fst l \<noteq> WARN) out = OK_LINES))
   \<and> (load_failures (ontology_file env) YAML_FILES = [] \<and> \<not> skip_schema env
        \<and> \<not> jsonschema_installed env \<longrightarrow>
      main env =
        bnd (consistency_rules (parsed_modules (ontology_file env) YAML_FILES) [])
          (\<lambda>errors.
             Inr ((WARN, [Lit ''jsonschema package not installed; skipping schema validation''])
                    # (if errors \<noteq> [] then map (Pair ERROR) errors else OK_LINES),
                  if errors \<noteq> [] then 1 else 0)))"
proof (intro conjI impI)
  assume m: "main env = Inr (out, code)"
  from main_outcome [OF m]
  have tags: "(code = 1 \<and> ERROR \<in> fst ` set out \<and> OK \<notin> fst ` set out)
              \<or> (code = 0 \<and> ERROR \<notin> fst ` set out \<and> OK \<in> fst ` set out
                  \<and> filter (\<lambda>l. fst l \<noteq> WARN) out = OK_LINES)"
  proof (elim disjE exE conjE)
    fix errors :: "msg list"
    assume "errors \<noteq> []" "out = map (Pair ERROR) errors" "code = 1"
    then show ?thesis by (simp add: tags_of_lines)
  next
    fix warnings errors :: "msg list"
    assume "errors \<noteq> []" "code = 1"
      "out = map (Pair WARN) warnings @ map (Pair ERROR) errors"
    then show ?thesis by (simp add: tags_of_lines image_Un)
  next
    fix warnings :: "msg list"
    assume "code = 0" "out = map (Pair WARN) warnings @ OK_LINES"
    then show ?thesis
      by (simp add: tags_of_lines image_Un OK_LINES_def filter_empty_conv)
  qed
  show "code = 0 \<longleftrightarrow> ERROR \<notin> fst ` set out" using tags by auto
  show "code = 0 \<or> code = 1" using tags by auto
  show "OK \<in> fst ` set out \<longleftrightarrow> code = 0" using tags by auto
  show "filter (\<lambda>l. fst l \<noteq> WARN) out = OK_LINES" if "code = 0"
    using tags that by auto
next
  assume "load_failures (ontology_file env) YAML_FILES = [] \<and> \<not> skip_schema env
        \<and> \<not> jsonschema_installed env"
  then show "main env =
        bnd (consistency_rules (parsed_modules (ontology_file env) YAML_FILES) [])
          (\<lambda>errors.
             Inr ((WARN, [Lit ''jsonschema package not installed; skipping schema validation''])
                    # (if errors \<noteq> [] then map (Pair ERROR) errors else OK_LINES),
                  if errors \<noteq> [] then 1 else 0))"
    by (cases "consistency_rules (parsed_modules (ontology_file env) YAML_FILES) []")
       (simp_all add: main_def load_modules_eq schema_stage_def OK_LINES_def)
qed

theorem exit_code_follows_errors_witness:
  "load_failures (ontology_file good_env) YAML_FILES = [] \<and> \<not> skip_schema good_env
   \<and> \<not> jsonschema_installed good_env
   \<and> main good_env =
       Inr ((WARN, [Lit ''jsonschema package not installed; skipping schema validation''])
              # OK_LINES, 0)
   \<and> ERROR \<notin> fst ` set ((WARN, [Lit ''jsonschema package not installed; skipping schema validation''])
              # OK_LINES)"
proof -
  let ?w = "(WARN, [Lit ''jsonschema package not installed; skipping schema validation''])"
  have h1: "load_failures (ontology_file good_env) YAML_FILES = []" by code_simp
  have h2: "\<not> skip_schema good_env" and h3: "\<not> jsonschema_installed good_env"
    by (simp_all add: good_env_def)
  have r: "consistency_rules (parsed_modules (ontology_file good_env) YAML_FILES) [] = Inr []"
    by code_simp
  note t = exit_code_follows_errors [of good_env "?w # OK_LINES" 0]
  from t h1 h2 h3 r have m: "main good_env = Inr (?w # OK_LINES, 0)" by simp
  with t have "ERROR \<notin> fst ` set (?w # OK_LINES)" by blast
  with h1 h2 h3 m show ?thesis by blast
qed

text \<open>
  The claim as stated gives the one warning to every run without the library. With the skip
  flag the schema stage is not entered, and the same bundle prints no warning at all.
\<close>

theorem one_warning_counterexample:
  "\<not> jsonschema_installed skipped_env \<and> main skipped_env = Inr (OK_LINES, 0)
   \<and> WARN \<notin> fst ` set OK_LINES"
  by code_simp

subsection \<open>Absent and empty modules\<close>

lemma mapping_flags_absent:
  "name \<in> set names \<Longrightarrow> map_of files name = None \<Longrightarrow> \<exists>e. mapping_flags names files errs = Inl e"
proof (induction names arbitrary: errs)
  case Nil
  then show ?case by simp
next
  case (Cons n rest)
  show ?case
  proof (cases "map_of files n")
    case None
    then show ?thesis by (simp add: dict_index_def)
  next
    case (Some m)
    with Cons.prems have "name \<in> set rest" by auto
    from Cons.IH [OF this Cons.prems(2)] show ?thesis
      by (auto simp: dict_index_def Some bnd_def split: sum.splits)
  qed
qed

lemma validate_mapping_hooks_absent:
  assumes "name \<in> set modules_requiring_mappings" and "map_of files name = None"
  shows "\<exists>e. validate_mapping_hooks files errs = Inl e"
proof -
  from mapping_flags_absent [OF assms]
  obtain e where "mapping_flags modules_requiring_mappings files errs = Inl e" by blast
  then show ?thesis by (simp add: validate_mapping_hooks_def)
qed

lemma consistency_rules_absent:
  assumes "name \<in> {''cbim_framework'', ''clinical_entities'', ''imaging_cdes'',
                    ''temporal_phases'', ''provenance'', ''implementation_science''}"
    and "map_of loaded name = None"
  shows "\<exists>e. consistency_rules loaded errs = Inl e"
proof (cases "name \<in> set modules_requiring_mappings")
  case True
  have "\<exists>e. validate_mapping_hooks loaded errs' = Inl e" for errs'
    using validate_mapping_hooks_absent [OF True assms(2)] .
  then show ?thesis
    unfolding consistency_rules_def
    by (auto simp: bnd_def split: sum.splits)
next
  case False
  with assms(1) have "name = ''temporal_phases''"
    by (auto simp: modules_requiring_mappings_def)
  with assms(2) have "dict_index loaded ''temporal_phases'' = Inl KeyError"
    by (simp add: dict_index_def)
  then show ?thesis
    unfolding consistency_rules_def
    by (auto simp: bnd_def split: sum.splits)
qed

lemma empty_rule1:
  "\<exists>new. length new = 4 \<and> validate_threshold_consistency (YDict []) (YDict []) errs = Inr (errs @ new)"
  by (simp add: validate_threshold_consistency_def get_biomarker_threshold_def dict_get_def
      lookup_or_def py_iter_def check_threshold_def)

lemma empty_rule2:
  "\<exists>new. length new = 2 \<and> validate_provenance_applicability (YDict []) errs = Inr (errs @ new)"
  by (simp add: validate_provenance_applicability_def applies_to_check_def dict_get_def
      lookup_or_def)

lemma empty_rule3:
  "\<exists>new. length new = 2 \<and> validate_temporal_kinetics (YDict []) errs = Inr (errs @ new)"
  by (simp add: validate_temporal_kinetics_def check_range_def dict_get_def lookup_or_def)

lemma empty_rule4:
  "\<exists>new. length new = 2 \<and> validate_temporal_thresholds (YDict []) errs = Inr (errs @ new)"
  by (simp add: validate_temporal_thresholds_def check_threshold_def dict_get_def lookup_or_def)

lemma empty_rule5: "validate_temporal_phase_ids (YDict []) errs = Inr errs"
  by (simp add: validate_temporal_phase_ids_def dict_get_def lookup_or_def dict_values_def
      py_set_def py_iter_def set_update_def actual_phase_ids_def set_minus_def py_sorted_def)

lemma empty_rule6: "validate_phase_alignment (YDict []) (YDict []) errs = Inr errs"
  by (simp add: validate_phase_alignment_def dict_get_def lookup_or_def
      py_set_def py_iter_def set_update_def set_minus_def py_sorted_def)

lemma empty_rule7:
  "\<exists>new. length new = 3 \<and> validate_tapvi_and_counts (YDict []) errs = Inr (errs @ new)"
  by (simp add: validate_tapvi_and_counts_def dict_get_def lookup_or_def py_len_def py_iter_def
      py_in_def)

lemma empty_rule8:
  "\<exists>new. length new = 6 \<and> validate_mapping_hooks empty_files errs = Inr (errs @ new)"
  by (simp add: validate_mapping_hooks_def empty_files_def modules_requiring_mappings_def
      dict_index_def dict_get_def lookup_or_def dict_keys_def set_minus_def py_in_def
      py_sorted_def)

text \<open>
  C4, as amended. \<open>validate_mapping_hooks\<close> indexes \<open>files[name]\<close>: when one of
  its five module names is absent from the mapping it ends with an exception, and so do the
  eight rules as \<open>main\<close> calls them when one of the six modules they read is absent.
  What the rules tolerate is a module that is present and empty: on empty mappings each
  rule returns normally, with its diagnostics for the missing fields appended (four, two,
  two, two, none, none, three and six messages).
\<close>

theorem rules_raise_on_absent_module:
  "(name \<in> set modules_requiring_mappings \<and> map_of files name = None
      \<longrightarrow> (\<exists>e. validate_mapping_hooks files errs = Inl e))
   \<and> (name \<in> {''cbim_framework'', ''clinical_entities'', ''imaging_cdes'',
                 ''temporal_phases'', ''provenance'', ''implementation_science''}
        \<and> map_of files name = None
      \<longrightarrow> (\<exists>e. consistency_rules files errs = Inl e))
   \<and> (\<exists>new. length new = 4
          \<and> validate_threshold_consistency (YDict []) (YDict []) errs = Inr (errs @ new))
   \<and> (\<exists>new. length new = 2
          \<and> validate_provenance_applicability (YDict []) errs = Inr (errs @ new))
   \<and> (\<exists>new. length new = 2 \<and> validate_temporal_kinetics (YDict []) errs = Inr (errs @ new))
   \<and> (\<exists>new. length new = 2 \<and> validate_temporal_thresholds (YDict []) errs = Inr (errs @ new))
   \<and> validate_temporal_phase_ids (YDict []) errs = Inr errs
   \<and> validate_phase_alignment (YDict []) (YDict []) errs = Inr errs
   \<and> (\<exists>new. length new = 3 \<and> validate_tapvi_and_counts (YDict []) errs = Inr (errs @ new))
   \<and> (\<exists>new. length new = 6 \<and> validate_mapping_hooks empty_files errs = Inr (errs @ new))"
proof (intro conjI impI)
  assume "name \<in> set modules_requiring_mappings \<and> map_of files name = None"
  then show "\<exists>e. validate_mapping_hooks files errs = Inl e"
    using validate_mapping_hooks_absent by blast
next
  assume h: "name \<in> {''cbim_framework'', ''clinical_entities'', ''imaging_cdes'',
                 ''temporal_phases'', ''provenance'', ''implementation_science''}
        \<and> map_of files name = None"
  show "\<exists>e. consistency_rules files errs = Inl e"
    by (rule consistency_rules_absent [OF conjunct1 [OF h] conjunct2 [OF h]])
qed (rule empty_rule1 empty_rule2 empty_rule3 empty_rule4 empty_rule5 empty_rule6 empty_rule7
          empty_rule8)+

theorem rules_raise_on_absent_module_witness:
  "''provenance'' \<in> set modules_requiring_mappings
   \<and> map_of four_files ''provenance'' = None
   \<and> isl (validate_mapping_hooks four_files [])
   \<and> isl (consistency_rules four_files [])"
proof -
  have a: "''provenance'' \<in> set modules_requiring_mappings"
    by (simp add: modules_requiring_mappings_def)
  have b: "map_of four_files ''provenance'' = None"
    by (simp add: four_files_def)
  have c: "''provenance'' \<in> {''cbim_framework'', ''clinical_entities'', ''imaging_cdes'',
                 ''temporal_phases'', ''provenance'', ''implementation_science''}"
    by simp
  note t = rules_raise_on_absent_module [of "''provenance''" four_files "[]"]
  have "\<exists>e. validate_mapping_hooks four_files [] = Inl e"
    by (rule mp [OF conjunct1 [OF t] conjI [OF a b]])
  then have i1: "isl (validate_mapping_hooks four_files [])"
    by (elim exE) simp
  have "\<exists>e. consistency_rules four_files [] = Inl e"
    by (rule mp [OF conjunct1 [OF conjunct2 [OF t]] conjI [OF c b]])
  then have i2: "isl (consistency_rules four_files [])"
    by (elim exE) simp
  show ?thesis by (intro conjI a b i1 i2)
qed

text \<open>
  The claim as stated fails on a mapping that holds four of the five modules: the index
  \<open>files["provenance"]\<close> raises \<open>KeyError\<close>.
\<close>

theorem absent_module_counterexample:
  "map_of four_files ''provenance'' = None
   \<and> validate_mapping_hooks four_files [] = Inl KeyError"
  by code_simp

subsection \<open>Rule 7\<close>

lemma py_eq_YStr: "py_eq y (YStr s) \<longleftrightarrow> y = YStr s"
  by (cases y) auto

lemma py_in_YStr: "py_in (YStr s) xs \<longleftrightarrow> YStr s \<in> set xs"
  by (auto simp: py_in_def list_ex_iff py_eq_YStr)

lemma cde_ids_dicts:
  "cde_ids (map YDict es) = Inr (map (\<lambda>e. lookup_or e ''id'' YNull) es)"
  by (induction es) (simp_all add: dict_get_def)

text \<open>
  C7. On an imaging module whose core and supplementary elements are lists, the
  supplementary elements being mappings, rule 7 returns the errors of four checks that do
  not depend on each other, in this order: the core list does not have 9 entries (the
  message states 9 and the count found), the supplementary list does not have 18 entries
  (18 and the count found), no supplementary element has the identifier \<open>tapvi\<close>,
  some supplementary element has the identifier \<open>tamvi\<close>. With 9 core elements,
  17 supplementary elements, \<open>tapvi\<close> present and \<open>tamvi\<close> absent the result
  is the single error "Expected 18 supplementary CDEs, found 17".
\<close>

theorem tapvi_and_counts_checks:
  assumes "imaging = YDict i"
    and "lookup_or i ''core_cdes'' (YList []) = YList core"
    and "lookup_or i ''supplementary_cdes'' (YList []) = YList (map YDict supp)"
  shows "validate_tapvi_and_counts imaging errs =
     Inr (errs
       @ (if length core \<noteq> 9
          then [[Lit ''Expected 9 core CDEs, found '', Str (YInt (int (length core)))]]
          else [])
       @ (if length supp \<noteq> 18
          then [[Lit ''Expected 18 supplementary CDEs, found '', Str (YInt (int (length supp)))]]
          else [])
       @ (if YStr ''tapvi'' \<notin> (\<lambda>e. lookup_or e ''id'' YNull) ` set supp
          then [[Lit (''imaging_cdes.yaml missing supplementary CDE id 'tapvi'' @ [CHR 0x27])]]
          else [])
       @ (if YStr ''tamvi'' \<in> (\<lambda>e. lookup_or e ''id'' YNull) ` set supp
          then [[Lit (''imaging_cdes.yaml still contains deprecated id 'tamvi'' @ [CHR 0x27])]]
          else []))"
  using assms
  by (simp add: validate_tapvi_and_counts_def dict_get_def py_len_def py_iter_def
      cde_ids_dicts py_in_YStr)

theorem tapvi_and_counts_checks_witness:
  "lookup_or short_imaging_fields ''core_cdes'' (YList [])
     = YList (replicate 9 (YDict [(''id'', YStr ''core'')]))
   \<and> lookup_or short_imaging_fields ''supplementary_cdes'' (YList [])
     = YList (map YDict short_supplementary)
   \<and> length short_supplementary = 17
   \<and> validate_tapvi_and_counts (YDict short_imaging_fields) []
     = Inr [[Lit ''Expected 18 supplementary CDEs, found '', Str (YInt 17)]]"
proof -
  have c: "lookup_or short_imaging_fields ''core_cdes'' (YList [])
     = YList (replicate 9 (YDict [(''id'', YStr ''core'')]))"
    by (simp add: short_imaging_fields_def lookup_or_def)
  have s: "lookup_or short_imaging_fields ''supplementary_cdes'' (YList [])
     = YList (map YDict short_supplementary)"
    by (simp add: short_imaging_fields_def lookup_or_def)
  have n: "length short_supplementary = 17"
    by (simp add: short_supplementary_def)
  have ids: "(\<lambda>e. lookup_or e ''id'' YNull) ` set short_supplementary
               = {YStr ''tapvi'', YStr ''other''}"
    by (simp add: short_supplementary_def lookup_or_def)
  have "validate_tapvi_and_counts (YDict short_imaging_fields) []
     = Inr [[Lit ''Expected 18 supplementary CDEs, found '', Str (YInt 17)]]"
    using tapvi_and_counts_checks [OF refl c s, of "[]"] by (simp add: n ids)
  with c s n show ?thesis by (intro conjI)
qed

subsection \<open>Rule 1\<close>

lemma first_threshold_dicts:
  "first_threshold (map YDict vars) a = Inr (declared_threshold vars a)"
  by (induction vars) (simp_all add: declared_threshold_def dict_get_def py_eq_YStr)

lemma get_biomarker_threshold_shape:
  assumes "cbim = YDict c"
    and "lookup_or c ''channels'' (YDict []) = YDict ch"
    and "lookup_or ch ''biomarker'' (YDict []) = YDict b"
    and "lookup_or b ''variables'' (YList []) = YList (map YDict vars)"
  shows "get_biomarker_threshold cbim a = Inr (declared_threshold vars a)"
  using assms
  by (simp add: get_biomarker_threshold_def dict_get_def py_iter_def first_threshold_dicts)

lemma check_threshold_gfap:
  assumes "v = YNull \<or> \<not> isl (py_float v)"
  shows "check_threshold v ''gfap_pg_ml'' missing prefix errs
         = Inr (errs @ threshold_errors v 30 missing prefix)"
proof (cases "v = YNull")
  case True
  then show ?thesis by (simp add: check_threshold_def threshold_errors_def)
next
  case False
  with assms obtain x where x: "py_float v = Inr x" by (cases "py_float v") auto
  have e: "dict_index EXPECTED_THRESHOLDS ''gfap_pg_ml'' = Inr (YFloat 30)"
    by (simp add: dict_index_def EXPECTED_THRESHOLDS_def)
  have "py_float (YFloat 30) = Inr 30" by (simp add: py_float_def)
  with x have "nearly_equal v (YFloat 30) default_tol = Inr (tolerance_equal x 30)"
    by (rule nearly_equal_coerced)
  with False x e show ?thesis
    by (simp add: check_threshold_def threshold_errors_def)
qed

lemma check_threshold_uchl1:
  assumes "v = YNull \<or> \<not> isl (py_float v)"
  shows "check_threshold v ''uchl1_pg_ml'' missing prefix errs
         = Inr (errs @ threshold_errors v 360 missing prefix)"
proof (cases "v = YNull")
  case True
  then show ?thesis by (simp add: check_threshold_def threshold_errors_def)
next
  case False
  with assms obtain x where x: "py_float v = Inr x" by (cases "py_float v") auto
  have e: "dict_index EXPECTED_THRESHOLDS ''uchl1_pg_ml'' = Inr (YFloat 360)"
    by (simp add: dict_index_def EXPECTED_THRESHOLDS_def)
  have "py_float (YFloat 360) = Inr 360" by (simp add: py_float_def)
  with x have "nearly_equal v (YFloat 360) default_tol = Inr (tolerance_equal x 360)"
    by (rule nearly_equal_coerced)
  with False x e show ?thesis
    by (simp add: check_threshold_def threshold_errors_def)
qed

text \<open>
  C1. On a framework module whose biomarker variables are a list of mappings and a
  provenance module whose two threshold blocks are mappings, with every threshold absent
  or a value that \<open>float\<close> converts, rule 1 returns the errors of four checks that do not depend on each other:
  GFAP and UCH-L1 in the framework module, GFAP and UCH-L1 in the provenance module. Each
  check gives one "missing" error naming its field when the value is absent, one
  "mismatch" error naming the value and the constant (30.0 for GFAP, 360.0 for UCH-L1)
  when the two are not tolerance-equal, and nothing when they are. A framework module
  with the GFAP threshold 29.5, all else matching, gives the single mismatch error naming
  29.5 and 30.0.
\<close>

theorem threshold_consistency_checks:
  assumes cbim: "cbim = YDict c"
      "lookup_or c ''channels'' (YDict []) = YDict ch"
      "lookup_or ch ''biomarker'' (YDict []) = YDict b"
      "lookup_or b ''variables'' (YList []) = YList (map YDict vars)"
    and prov: "provenance = YDict p"
      "lookup_or p ''threshold_provenance'' (YDict []) = YDict tp"
      "lookup_or tp ''gfap_ct_threshold'' (YDict []) = YDict g"
      "lookup_or tp ''uchl1_ct_threshold'' (YDict []) = YDict u"
    and cg: "cg = declared_threshold vars ''gfap_pg_ml''" "cg = YNull \<or> \<not> isl (py_float cg)"
    and cu: "cu = declared_threshold vars ''uchl1_pg_ml''" "cu = YNull \<or> \<not> isl (py_float cu)"
    and pg: "pg = lookup_or g ''value'' YNull" "pg = YNull \<or> \<not> isl (py_float pg)"
    and pu: "pu = lookup_or u ''value'' YNull" "pu = YNull \<or> \<not> isl (py_float pu)"
  shows "validate_threshold_consistency cbim provenance errs =
     Inr (errs
       @ threshold_errors cg 30
           [Lit ''cbim_framework.yaml missing biomarker variable 'gfap_pg_ml' ct_threshold'']
           ''GFAP threshold mismatch in cbim_framework.yaml: ''
       @ threshold_errors cu 360
           [Lit ''cbim_framework.yaml missing biomarker variable 'uchl1_pg_ml' ct_threshold'']
           ''UCH-L1 threshold mismatch in cbim_framework.yaml: ''
       @ threshold_errors pg 30
           [Lit ''provenance.yaml missing threshold_provenance.gfap_ct_threshold.value'']
           ''GFAP threshold mismatch in provenance.yaml: ''
       @ threshold_errors pu 360
           [Lit ''provenance.yaml missing threshold_provenance.uchl1_ct_threshold.value'']
           ''UCH-L1 threshold mismatch in provenance.yaml: '')"
proof -
  have l1: "get_biomarker_threshold cbim ''gfap_pg_ml'' = Inr cg"
    and l2: "get_biomarker_threshold cbim ''uchl1_pg_ml'' = Inr cu"
    using get_biomarker_threshold_shape [OF cbim] cg(1) cu(1) by simp_all
  have l3: "get_chain provenance [''threshold_provenance'', ''gfap_ct_threshold''] = Inr (YDict g)"
    and l4: "get_chain provenance [''threshold_provenance'', ''uchl1_ct_threshold''] = Inr (YDict u)"
    using prov by (simp_all add: dict_get_def)
  have l5: "dict_get (YDict g) ''value'' YNull = Inr pg"
    and l6: "dict_get (YDict u) ''value'' YNull = Inr pu"
    using pg(1) pu(1) by (simp_all add: dict_get_def)
  show ?thesis
    unfolding validate_threshold_consistency_def
    by (simp only: l1 l2 l3 l4 l5 l6 bnd_Inr check_threshold_gfap [OF cg(2)]
        check_threshold_uchl1 [OF cu(2)] check_threshold_gfap [OF pg(2)]
        check_threshold_uchl1 [OF pu(2)] append_assoc)
qed

theorem threshold_consistency_checks_witness:
  "declared_threshold mismatch_variables ''gfap_pg_ml'' = YFloat (59 / 2)
   \<and> py_float (YFloat (59 / 2)) = Inr (59 / 2)
   \<and> validate_threshold_consistency mismatch_cbim good_provenance [] =
       Inr [[Lit ''GFAP threshold mismatch in cbim_framework.yaml: '', Str (YFloat (59 / 2)),
             Lit '' != '', Str (YFloat 30)]]"
proof -
  let ?b = "[(''variables'', YList (map YDict mismatch_variables))]"
  let ?ch = "[(''biomarker'', YDict ?b)]"
  let ?c = "[(''channels'', YDict ?ch),
             (''schema_contract'', YDict [(''mapping_fields_optional'', YBool True)])]"
  let ?g = "[(''value'', YFloat 30), (''applies_to'', YList [YStr ''adult'', YStr ''mild_tbi''])]"
  let ?u = "[(''value'', YFloat 360),
             (''applies_to'', YList [YStr ''mild_tbi'', YStr ''adult'', YStr ''ed''])]"
  let ?tp = "[(''gfap_ct_threshold'', YDict ?g), (''uchl1_ct_threshold'', YDict ?u)]"
  let ?p = "[(''threshold_provenance'', YDict ?tp),
             (''schema_contract'', YDict [(''mapping_fields_optional'', YBool True)])]"
  have c1: "mismatch_cbim = YDict ?c"
    by (simp add: mismatch_cbim_def mismatch_variables_def)
  have c2: "lookup_or ?c ''channels'' (YDict []) = YDict ?ch"
    and c3: "lookup_or ?ch ''biomarker'' (YDict []) = YDict ?b"
    and c4: "lookup_or ?b ''variables'' (YList []) = YList (map YDict mismatch_variables)"
    by (simp_all add: lookup_or_def)
  have p1: "good_provenance = YDict ?p"
    by (simp add: good_provenance_def)
  have p2: "lookup_or ?p ''threshold_provenance'' (YDict []) = YDict ?tp"
    and p3: "lookup_or ?tp ''gfap_ct_threshold'' (YDict []) = YDict ?g"
    and p4: "lookup_or ?tp ''uchl1_ct_threshold'' (YDict []) = YDict ?u"
    by (simp_all add: lookup_or_def)
  have cg: "YFloat (59 / 2) = declared_threshold mismatch_variables ''gfap_pg_ml''"
    and cu: "YInt 360 = declared_threshold mismatch_variables ''uchl1_pg_ml''"
    by (simp_all add: declared_threshold_def mismatch_variables_def lookup_or_def)
  have pg: "YFloat 30 = lookup_or ?g ''value'' YNull"
    and pu: "YFloat 360 = lookup_or ?u ''value'' YNull"
    by (simp_all add: lookup_or_def)
  have n1: "YFloat (59 / 2) = YNull \<or> \<not> isl (py_float (YFloat (59 / 2)))"
    and n3: "YFloat 30 = YNull \<or> \<not> isl (py_float (YFloat 30))"
    and n4: "YFloat 360 = YNull \<or> \<not> isl (py_float (YFloat 360))"
    by (simp_all add: py_float_def)
  have "py_float (YInt 360) = Inr 360" by code_simp
  then have n2: "YInt 360 = YNull \<or> \<not> isl (py_float (YInt 360))" by simp
  have e1: "threshold_errors (YFloat (59 / 2)) 30
           [Lit ''cbim_framework.yaml missing biomarker variable 'gfap_pg_ml' ct_threshold'']
           ''GFAP threshold mismatch in cbim_framework.yaml: ''
         = [[Lit ''GFAP threshold mismatch in cbim_framework.yaml: '', Str (YFloat (59 / 2)),
             Lit '' != '', Str (YFloat 30)]]"
    by code_simp
  have e2: "threshold_errors (YInt 360) 360
           [Lit ''cbim_framework.yaml missing biomarker variable 'uchl1_pg_ml' ct_threshold'']
           ''UCH-L1 threshold mismatch in cbim_framework.yaml: '' = []"
    by code_simp
  have e3: "threshold_errors (YFloat 30) 30
           [Lit ''provenance.yaml missing threshold_provenance.gfap_ct_threshold.value'']
           ''GFAP threshold mismatch in provenance.yaml: '' = []"
    by code_simp
  have e4: "threshold_errors (YFloat 360) 360
           [Lit ''provenance.yaml missing threshold_provenance.uchl1_ct_threshold.value'']
           ''UCH-L1 threshold mismatch in provenance.yaml: '' = []"
    by code_simp
  note t = threshold_consistency_checks [OF c1 c2 c3 c4 p1 p2 p3 p4 cg n1 cu n2 pg n3 pu n4,
      of "[]"]
  have r: "validate_threshold_consistency mismatch_cbim good_provenance [] =
       Inr [[Lit ''GFAP threshold mismatch in cbim_framework.yaml: '', Str (YFloat (59 / 2)),
             Lit '' != '', Str (YFloat 30)]]"
    unfolding t by (simp only: e1 e2 e3 e4 append_Nil append_Nil2)
  have n: "py_float (YFloat (59 / 2)) = Inr (59 / 2)" by (simp add: py_float_def)
  show ?thesis by (intro conjI cg [symmetric] n r)
qed

subsection \<open>Rule 3\<close>

lemma legacy_kinetics_dict:
  "legacy_kinetics expected (YDict w) errs
     = Inr (errs @ concat (map (legacy_key_errors w) expected))"
proof (induction expected arbitrary: errs)
  case Nil
  then show ?case by simp
next
  case (Cons kv rest)
  obtain key ex where kv: "kv = (key, ex)" by (cases kv)
  show ?case
    unfolding kv by (simp add: dict_get_def Cons.IH legacy_key_errors_def)
qed

lemma check_range_gfap:
  "check_range r ''gfap_clearance_half_life_range_hours'' missing prefix errs
     = Inr (errs @ range_errors r (YList [YInt 24, YInt 36]) missing prefix)"
  by (simp add: check_range_def range_errors_def dict_index_def EXPECTED_KINETICS_def)

lemma check_range_uchl1:
  "check_range r ''uchl1_clearance_half_life_range_hours'' missing prefix errs
     = Inr (errs @ range_errors r (YList [YInt 7, YInt 9]) missing prefix)"
  by (simp add: check_range_def range_errors_def dict_index_def EXPECTED_KINETICS_def)

lemma py_eq_YInt: "py_eq a (YInt n) \<longleftrightarrow> num_val a = Some (of_int n)"
  by (cases a) (auto split: option.splits)

lemma py_eq_pair:
  "py_eq a (YList [YInt m, YInt n]) \<longleftrightarrow>
     (\<exists>b c. a = YList [b, c] \<and> num_val b = Some (of_int m) \<and> num_val c = Some (of_int n))"
proof (cases a)
  case (YList xs)
  show ?thesis
  proof (cases xs)
    case Nil
    with YList show ?thesis by simp
  next
    case (Cons b ys)
    show ?thesis
    proof (cases ys)
      case Nil
      with Cons YList show ?thesis by simp
    next
      case (Cons c zs)
      with \<open>xs = b # ys\<close> YList show ?thesis
        by (cases zs) (auto simp: py_eq_YInt)
    qed
  qed
qed auto

text \<open>
  C2. Rule 3 decides the shape of a temporal module once, by the truth value of
  \<open>key_biomarker_windows\<close> in the subacute block. When that container is a
  non-empty mapping, the result is the errors of the four legacy keys and nothing else:
  the current-shape container is not read, whatever it holds. Each key gives a
  missing-key error or a mismatch error or nothing. When the container is absent or
  empty (or any other value that tests false), the result is the errors of the two
  half-life ranges of the current shape. The
  comparisons are Python's equality, without tolerance: a scalar equals the expected
  integer exactly when it is a number of that value, and a range equals the expected
  pair exactly when it is a list of two numbers of those values in that order. A legacy
  container whose four keys match gives no error.
\<close>

theorem temporal_kinetics_shapes:
  assumes "temporal = YDict t"
    and "lookup_or t ''phases'' (YDict []) = YDict ph"
    and "lookup_or ph ''subacute'' (YDict []) = YDict s"
  shows "(lookup_or s ''key_biomarker_windows'' (YDict []) = YDict w \<and> w \<noteq> [] \<longrightarrow>
            validate_temporal_kinetics temporal errs
              = Inr (errs @ concat (map (legacy_key_errors w) EXPECTED_KINETICS)))
       \<and> (\<not> truthy (lookup_or s ''key_biomarker_windows'' (YDict []))
          \<and> lookup_or s ''biomarker_clearance_kinetics'' (YDict []) = YDict c
          \<and> lookup_or c ''gfap'' (YDict []) = YDict g
          \<and> lookup_or c ''uchl1'' (YDict []) = YDict u \<longrightarrow>
            validate_temporal_kinetics temporal errs
              = Inr (errs
                  @ range_errors (lookup_or g ''half_life_hours'' YNull) (YList [YInt 24, YInt 36])
                      [Lit ''temporal_phases.yaml missing subacute.biomarker_clearance_kinetics.gfap.half_life_hours'']
                      ''Temporal kinetics mismatch for gfap half-life range: ''
                  @ range_errors (lookup_or u ''half_life_hours'' YNull) (YList [YInt 7, YInt 9])
                      [Lit ''temporal_phases.yaml missing subacute.biomarker_clearance_kinetics.uchl1.half_life_hours'']
                      ''Temporal kinetics mismatch for uchl1 half-life range: ''))
       \<and> (py_eq a (YInt n) \<longleftrightarrow> num_val a = Some (of_int n))
       \<and> (py_eq a (YList [YInt m, YInt n]) \<longleftrightarrow>
            (\<exists>b c. a = YList [b, c] \<and> num_val b = Some (of_int m) \<and> num_val c = Some (of_int n)))"
proof (intro conjI impI)
  {
    assume "lookup_or s ''key_biomarker_windows'' (YDict []) = YDict w \<and> w \<noteq> []"
    then show "validate_temporal_kinetics temporal errs
              = Inr (errs @ concat (map (legacy_key_errors w) EXPECTED_KINETICS))"
      using assms
      by (simp add: validate_temporal_kinetics_def dict_get_def legacy_kinetics_dict)
  }
  {
    assume "\<not> truthy (lookup_or s ''key_biomarker_windows'' (YDict []))
          \<and> lookup_or s ''biomarker_clearance_kinetics'' (YDict []) = YDict c
          \<and> lookup_or c ''gfap'' (YDict []) = YDict g
          \<and> lookup_or c ''uchl1'' (YDict []) = YDict u"
    then show "validate_temporal_kinetics temporal errs
              = Inr (errs
                  @ range_errors (lookup_or g ''half_life_hours'' YNull) (YList [YInt 24, YInt 36])
                      [Lit ''temporal_phases.yaml missing subacute.biomarker_clearance_kinetics.gfap.half_life_hours'']
                      ''Temporal kinetics mismatch for gfap half-life range: ''
                  @ range_errors (lookup_or u ''half_life_hours'' YNull) (YList [YInt 7, YInt 9])
                      [Lit ''temporal_phases.yaml missing subacute.biomarker_clearance_kinetics.uchl1.half_life_hours'']
                      ''Temporal kinetics mismatch for uchl1 half-life range: '')"
      using assms
      by (simp add: validate_temporal_kinetics_def dict_get_def check_range_gfap
          check_range_uchl1)
  }
  show "py_eq a (YInt n) \<longleftrightarrow> num_val a = Some (of_int n)"
    by (rule py_eq_YInt)
  show "py_eq a (YList [YInt m, YInt n]) \<longleftrightarrow>
            (\<exists>b c. a = YList [b, c] \<and> num_val b = Some (of_int m) \<and> num_val c = Some (of_int n))"
    by (rule py_eq_pair)
qed

theorem temporal_kinetics_shapes_witness:
  "lookup_or legacy_subacute ''key_biomarker_windows'' (YDict []) = YDict legacy_windows
   \<and> legacy_windows \<noteq> []
   \<and> lookup_or legacy_subacute ''biomarker_clearance_kinetics'' (YDict []) = YInt 5
   \<and> validate_temporal_kinetics (YDict legacy_temporal_fields) [] = Inr []
   \<and> validate_temporal_kinetics good_temporal [] = Inr []"
proof -
  have l1: "lookup_or legacy_temporal_fields ''phases'' (YDict []) = YDict legacy_phases"
    by (simp add: legacy_temporal_fields_def lookup_or_def)
  have l2: "lookup_or legacy_phases ''subacute'' (YDict []) = YDict legacy_subacute"
    by (simp add: legacy_phases_def lookup_or_def)
  have l3: "lookup_or legacy_subacute ''key_biomarker_windows'' (YDict []) = YDict legacy_windows"
    and l4: "lookup_or legacy_subacute ''biomarker_clearance_kinetics'' (YDict []) = YInt 5"
    by (simp_all add: legacy_subacute_def lookup_or_def)
  have l5: "legacy_windows \<noteq> []"
    by (simp add: legacy_windows_def)
  have l6: "concat (map (legacy_key_errors legacy_windows) EXPECTED_KINETICS) = []"
    by (simp add: legacy_key_errors_def legacy_windows_def EXPECTED_KINETICS_def lookup_or_def)
  note legacy = temporal_kinetics_shapes [OF refl l1 l2, of legacy_windows "[]"]
  have r1: "validate_temporal_kinetics (YDict legacy_temporal_fields) [] = Inr []"
    using mp [OF conjunct1 [OF legacy] conjI [OF l3 l5]] by (simp add: l6)
  let ?g = "[(''half_life_hours'', YList [YInt 24, YInt 36])]"
  let ?u = "[(''half_life_hours'', YList [YInt 7, YInt 9])]"
  let ?c = "[(''gfap'', YDict ?g), (''uchl1'', YDict ?u)]"
  let ?s = "[(''id'', YStr ''subacute''), (''biomarker_clearance_kinetics'', YDict ?c)]"
  let ?ph = "[(''hyperacute'', YDict [(''id'', YStr ''hyperacute'')]),
              (''acute'', YDict [(''id'', YStr ''acute'')]),
              (''subacute'', YDict ?s)]"
  let ?t = "[(''schema_contract'', YDict [(''canonical_phase_ids'', phase_list)]),
             (''phases'', YDict ?ph),
             (''biomarker_kinetics'', YDict
                [(''gfap'', YDict [(''ct_decision_threshold'', YDict [(''value'', YFloat 30)])]),
                 (''uchl1'', YDict [(''ct_decision_threshold'', YDict [(''value'', YFloat 360)])])])]"
  have g0: "good_temporal = YDict ?t"
    by (simp add: good_temporal_def)
  have g1: "lookup_or ?t ''phases'' (YDict []) = YDict ?ph"
    and g2: "lookup_or ?ph ''subacute'' (YDict []) = YDict ?s"
    by (simp_all add: lookup_or_def)
  have g3: "\<not> truthy (lookup_or ?s ''key_biomarker_windows'' (YDict []))
          \<and> lookup_or ?s ''biomarker_clearance_kinetics'' (YDict []) = YDict ?c
          \<and> lookup_or ?c ''gfap'' (YDict []) = YDict ?g
          \<and> lookup_or ?c ''uchl1'' (YDict []) = YDict ?u"
    by (simp add: lookup_or_def)
  note current = temporal_kinetics_shapes [OF g0 g1 g2, of _ "[]" ?c ?g ?u]
  have r2: "validate_temporal_kinetics good_temporal [] = Inr []"
    using mp [OF conjunct1 [OF conjunct2 [OF current]] g3]
    by (simp add: range_errors_def lookup_or_def)
  show ?thesis by (intro conjI l3 l5 l4 r1 r2)
qed

subsection \<open>Sets and lists of identifiers\<close>

lemma py_eq_str_lists:
  "py_eq (YList (map YStr xs)) (YList (map YStr ys)) \<longleftrightarrow> xs = ys"
proof -
  have "length xs = length ys \<and> list_all (\<lambda>(x, y). py_eq x y) (zip (map YStr xs) (map YStr ys))
        \<longleftrightarrow> xs = ys"
  proof (induction xs arbitrary: ys)
    case Nil
    then show ?case by auto
  next
    case (Cons x xs)
    show ?case
    proof (cases ys)
      case Nil
      then show ?thesis by simp
    next
      case (Cons y ys')
      with Cons.IH [of ys'] show ?thesis by auto
    qed
  qed
  then show ?thesis by simp
qed

lemma set_add_str:
  "set_add (map YStr ss) (YStr p) = map YStr (if p \<in> set ss then ss else ss @ [p])"
  by (auto simp: set_add_def py_in_YStr)

lemma foldl_set_add_strs:
  "distinct ss \<Longrightarrow>
   \<exists>ss'. foldl set_add (map YStr ss) (map YStr ps) = map YStr ss'
         \<and> distinct ss' \<and> set ss' = set ss \<union> set ps"
proof (induction ps arbitrary: ss)
  case Nil
  then show ?case by auto
next
  case (Cons p ps)
  let ?ss = "if p \<in> set ss then ss else ss @ [p]"
  have d: "distinct ?ss" using Cons.prems by simp
  from Cons.IH [OF d] obtain ss' where
    "foldl set_add (map YStr ?ss) (map YStr ps) = map YStr ss'"
    "distinct ss'" "set ss' = set ?ss \<union> set ps"
    by blast
  then show ?case
    by (intro exI [of _ ss']) (auto simp: set_add_str simp del: map_append split: if_splits)
qed

lemma set_update_strs:
  "distinct ss \<Longrightarrow>
   \<exists>ss'. set_update (map YStr ss) (map YStr ps) = Inr (map YStr ss')
         \<and> distinct ss' \<and> set ss' = set ss \<union> set ps"
  using foldl_set_add_strs [of ss ps]
  by (simp add: set_update_def list_all_iff image_iff Ball_def) auto

lemma py_set_strs:
  "\<exists>ss'. py_set (YList (map YStr ps)) = Inr (map YStr ss') \<and> distinct ss' \<and> set ss' = set ps"
  using set_update_strs [of "[]" ps] by (simp add: py_set_def py_iter_def)

lemma set_minus_strs:
  "set_minus (map YStr a) (map YStr b) = map YStr (filter (\<lambda>x. x \<notin> set b) a)"
  by (induction a) (auto simp: set_minus_def py_in_YStr)

lemma py_sorted_strs: "py_sorted (map YStr xs) = Inr (map YStr (sort xs))"
proof -
  have "list_all is_str (map YStr xs)" by (simp add: list_all_iff)
  moreover have "map str_of (map YStr xs) = xs" by (induction xs) simp_all
  ultimately show ?thesis by (simp add: py_sorted_def)
qed

lemma sort_distinct: "distinct xs \<Longrightarrow> sort xs = sorted_list_of_set (set xs)"
  by (simp add: sorted_list_of_set_sort_remdups distinct_remdups_id)

lemma missing_strs:
  assumes "distinct a"
  shows "py_sorted (set_minus (map YStr a) (map YStr b))
         = Inr (map YStr (sorted_list_of_set (set a - set b)))"
proof -
  have "distinct (filter (\<lambda>x. x \<notin> set b) a)" using assms by simp
  moreover have "set (filter (\<lambda>x. x \<notin> set b) a) = set a - set b" by auto
  ultimately show ?thesis
    by (simp add: set_minus_strs py_sorted_strs sort_distinct del: set_filter)
qed

lemma collect_phases_strs:
  assumes "\<forall>e\<in>set es. lookup_or e ''temporal_phases'' (YList []) = YList (map YStr (referenced_phases e))"
    and "distinct used"
  shows "\<exists>used'. collect_phases (map YDict es) (map YStr used) = Inr (map YStr used')
           \<and> distinct used'
           \<and> set used' = set used \<union> (\<Union>e\<in>set es. set (referenced_phases e))"
  using assms
proof (induction es arbitrary: used)
  case Nil
  then show ?case by auto
next
  case (Cons e es)
  from Cons.prems(1)
  have e: "lookup_or e ''temporal_phases'' (YList []) = YList (map YStr (referenced_phases e))"
    and rest: "\<forall>e\<in>set es. lookup_or e ''temporal_phases'' (YList [])
                 = YList (map YStr (referenced_phases e))"
    by simp_all
  from set_update_strs [OF Cons.prems(2), of "referenced_phases e"] obtain u1 where
    u1: "set_update (map YStr used) (map YStr (referenced_phases e)) = Inr (map YStr u1)"
      "distinct u1" "set u1 = set used \<union> set (referenced_phases e)"
    by blast
  from Cons.IH [OF rest u1(2)] obtain u2 where
    u2: "collect_phases (map YDict es) (map YStr u1) = Inr (map YStr u2)"
      "distinct u2" "set u2 = set u1 \<union> (\<Union>e\<in>set es. set (referenced_phases e))"
    by blast
  have "collect_phases (map YDict (e # es)) (map YStr used) = Inr (map YStr u2)"
    by (simp add: dict_get_def e py_iter_def u1(1) u2(1))
  moreover have "set u2 = set used \<union> (\<Union>e\<in>set (e # es). set (referenced_phases e))"
    using u1(3) u2(3) by auto
  ultimately show ?case using u2(2) by blast
qed

subsection \<open>Rule 6\<close>

text \<open>
  C6. On a temporal and an imaging module whose canonical phase lists are lists of strings
  and whose core and supplementary elements are mappings that refer to lists of strings,
  rule 6 returns the errors of two checks. The first gives one alignment error, naming
  both modules, exactly when the two canonical lists differ as lists, order included. The
  second gives one error exactly when some element of either list refers to an identifier
  outside the temporal module's canonical list; the error lists every such identifier
  once, in sorted order. Two canonical lists with the same identifiers in another order
  give the one alignment error.
\<close>

theorem phase_alignment_checks:
  assumes "temporal = YDict t"
    and "lookup_or t ''schema_contract'' (YDict []) = YDict tc"
    and "lookup_or tc ''canonical_phase_ids'' (YList []) = YList (map YStr tids)"
    and "imaging = YDict i"
    and "lookup_or i ''schema_contract'' (YDict []) = YDict ic"
    and "lookup_or ic ''canonical_phase_ids'' (YList []) = YList (map YStr iids)"
    and "lookup_or i ''core_cdes'' (YList []) = YList (map YDict core)"
    and "lookup_or i ''supplementary_cdes'' (YList []) = YList (map YDict supp)"
    and "\<forall>e\<in>set (core @ supp).
           lookup_or e ''temporal_phases'' (YList []) = YList (map YStr (referenced_phases e))"
    and "unknown = sorted_list_of_set
           ((\<Union>e\<in>set (core @ supp). set (referenced_phases e)) - set tids)"
  shows "validate_phase_alignment temporal imaging errs =
     Inr (errs
       @ (if tids \<noteq> iids
          then [[Lit ''Canonical phase ID mismatch between temporal_phases.yaml and imaging_cdes.yaml'']]
          else [])
       @ (if unknown \<noteq> []
          then [[Lit ''imaging_cdes.yaml references unknown temporal phase IDs: '',
                 Str (YList (map YStr unknown))]]
          else []))
     \<and> sorted unknown \<and> distinct unknown
     \<and> set unknown = (\<Union>e\<in>set (core @ supp). set (referenced_phases e)) - set tids"
proof -
  let ?refs = "\<Union>e\<in>set (core @ supp). set (referenced_phases e)"
  have fin: "finite (?refs - set tids)" by simp
  from py_set_strs [of tids] obtain valid where
    valid: "py_set (YList (map YStr tids)) = Inr (map YStr valid)" "set valid = set tids"
    by blast
  have c: "\<forall>e\<in>set core. lookup_or e ''temporal_phases'' (YList [])
             = YList (map YStr (referenced_phases e))"
    and s: "\<forall>e\<in>set supp. lookup_or e ''temporal_phases'' (YList [])
             = YList (map YStr (referenced_phases e))"
    using assms(9) by simp_all
  from collect_phases_strs [OF c, of "[]"] obtain u1 where
    u1: "collect_phases (map YDict core) [] = Inr (map YStr u1)" "distinct u1"
      "set u1 = (\<Union>e\<in>set core. set (referenced_phases e))"
    by auto
  from collect_phases_strs [OF s u1(2)] obtain u2 where
    u2: "collect_phases (map YDict supp) (map YStr u1) = Inr (map YStr u2)" "distinct u2"
      "set u2 = set u1 \<union> (\<Union>e\<in>set supp. set (referenced_phases e))"
    by blast
  have refs: "set u2 = ?refs" using u1(3) u2(3) by auto
  have m: "py_sorted (set_minus (map YStr u2) (map YStr valid)) = Inr (map YStr unknown)"
    using missing_strs [OF u2(2), of valid] by (simp add: refs valid(2) assms(10))
  have "validate_phase_alignment temporal imaging errs =
     Inr (errs
       @ (if tids \<noteq> iids
          then [[Lit ''Canonical phase ID mismatch between temporal_phases.yaml and imaging_cdes.yaml'']]
          else [])
       @ (if unknown \<noteq> []
          then [[Lit ''imaging_cdes.yaml references unknown temporal phase IDs: '',
                 Str (YList (map YStr unknown))]]
          else []))"
    unfolding validate_phase_alignment_def
    by (simp add: assms(1-8) dict_get_def py_eq_str_lists valid(1) py_iter_def u1(1) u2(1) m
        del: py_eq.simps)
  moreover have "sorted unknown" "distinct unknown" "set unknown = ?refs - set tids"
    using fin by (simp_all add: assms(10))
  ultimately show ?thesis by blast
qed

theorem phase_alignment_checks_witness:
  "canonical_order \<noteq> [''hyperacute'', ''subacute'', ''acute'']
   \<and> map referenced_phases reordered_core = [[''late'', ''acute'', ''chronic'', ''late'']]
   \<and> validate_phase_alignment (YDict reordered_temporal_fields) (YDict reordered_imaging_fields) []
       = Inr [[Lit ''Canonical phase ID mismatch between temporal_phases.yaml and imaging_cdes.yaml''],
              [Lit ''imaging_cdes.yaml references unknown temporal phase IDs: '',
               Str (YList [YStr ''chronic'', YStr ''late''])]]"
proof -
  let ?tc = "[(''canonical_phase_ids'', YList (map YStr canonical_order))]"
  let ?ic = "[(''canonical_phase_ids'', YList (map YStr [''hyperacute'', ''subacute'', ''acute'']))]"
  have t1: "lookup_or reordered_temporal_fields ''schema_contract'' (YDict []) = YDict ?tc"
    by (simp add: reordered_temporal_fields_def lookup_or_def)
  have t2: "lookup_or ?tc ''canonical_phase_ids'' (YList []) = YList (map YStr canonical_order)"
    by (simp add: lookup_or_def)
  have i1: "lookup_or reordered_imaging_fields ''schema_contract'' (YDict []) = YDict ?ic"
    and i3: "lookup_or reordered_imaging_fields ''core_cdes'' (YList [])
               = YList (map YDict reordered_core)"
    and i4: "lookup_or reordered_imaging_fields ''supplementary_cdes'' (YList [])
               = YList (map YDict [])"
    by (simp_all add: reordered_imaging_fields_def lookup_or_def)
  have i2: "lookup_or ?ic ''canonical_phase_ids'' (YList [])
              = YList (map YStr [''hyperacute'', ''subacute'', ''acute''])"
    by (simp add: lookup_or_def)
  have r: "\<forall>e\<in>set (reordered_core @ []).
          lookup_or e ''temporal_phases'' (YList []) = YList (map YStr (referenced_phases e))"
    by (simp add: reordered_core_def referenced_phases_def lookup_or_def)
  have u: "[''chronic'', ''late''] = sorted_list_of_set
             ((\<Union>e\<in>set (reordered_core @ []). set (referenced_phases e)) - set canonical_order)"
    by code_simp
  have d: "canonical_order \<noteq> [''hyperacute'', ''subacute'', ''acute'']"
    by (simp add: canonical_order_def)
  note t = phase_alignment_checks [OF refl t1 t2 refl i1 i2 i3 i4 r u, of "[]"]
  have "validate_phase_alignment (YDict reordered_temporal_fields) (YDict reordered_imaging_fields) []
       = Inr [[Lit ''Canonical phase ID mismatch between temporal_phases.yaml and imaging_cdes.yaml''],
              [Lit ''imaging_cdes.yaml references unknown temporal phase IDs: '',
               Str (YList [YStr ''chronic'', YStr ''late''])]]"
    using conjunct1 [OF t] d by simp
  moreover have "map referenced_phases reordered_core
                   = [[''late'', ''acute'', ''chronic'', ''late'']]"
    by (simp add: reordered_core_def referenced_phases_def lookup_or_def)
  ultimately show ?thesis using d by (intro conjI)
qed

subsection \<open>Rule 5\<close>

lemma set_actual_phase_ids:
  "set (actual_phase_ids payloads)
     = {i. truthy i \<and> (\<exists>d. YDict d \<in> set payloads \<and> lookup_or d ''id'' YNull = i)}"
proof (induction payloads)
  case Nil
  then show ?case by (simp add: actual_phase_ids_def)
next
  case (Cons p ps)
  have step: "actual_phase_ids (p # ps)
      = (case p of
           YDict d \<Rightarrow> if truthy (lookup_or d ''id'' YNull) then [lookup_or d ''id'' YNull] else []
         | _ \<Rightarrow> []) @ actual_phase_ids ps"
    by (cases p) (simp_all add: actual_phase_ids_def)
  show ?case
    unfolding step using Cons.IH by (cases p) auto
qed

lemma str_in_foldl_set_add:
  "YStr c \<in> set (foldl set_add s xs) \<longleftrightarrow> YStr c \<in> set s \<or> YStr c \<in> set xs"
proof (induction xs arbitrary: s)
  case Nil
  then show ?case by simp
next
  case (Cons x xs)
  have "YStr c \<in> set (set_add s x) \<longleftrightarrow> YStr c \<in> set s \<or> YStr c = x"
    by (auto simp: set_add_def py_in_YStr)
  then show ?case using Cons.IH [of "set_add s x"] by auto
qed

lemma set_minus_strs_any:
  "set_minus (map YStr a) B = map YStr (filter (\<lambda>x. YStr x \<notin> set B) a)"
  by (induction a) (auto simp: set_minus_def py_in_YStr)

lemma missing_strs_any:
  assumes "distinct a"
  shows "py_sorted (set_minus (map YStr a) B)
         = Inr (map YStr (sorted_list_of_set {c \<in> set a. YStr c \<notin> set B}))"
proof -
  have "distinct (filter (\<lambda>x. YStr x \<notin> set B) a)" using assms by simp
  moreover have "set (filter (\<lambda>x. YStr x \<notin> set B) a) = {c \<in> set a. YStr c \<notin> set B}" by auto
  ultimately show ?thesis
    by (simp add: set_minus_strs_any py_sorted_strs sort_distinct del: set_filter)
qed

text \<open>
  C10. On a temporal module whose canonical list is a list of strings and whose phase
  blocks are a mapping, the declared identifiers that rule 5 collects are exactly the
  truthy \<open>id\<close> values of the blocks that are mappings: a block that is not a mapping,
  or whose \<open>id\<close> is missing, empty or otherwise falsy, contributes nothing. The rule
  returns one error when some canonical identifier is not among them, listing these
  identifiers once each in sorted order, and no error otherwise; an identifier that only a
  block declares never enters the result. (The identifiers collected must be hashable,
  as the rule puts them into a set.)
\<close>

theorem temporal_phase_ids_checks:
  assumes "temporal = YDict t"
    and "lookup_or t ''schema_contract'' (YDict []) = YDict tc"
    and "lookup_or tc ''canonical_phase_ids'' (YList []) = YList (map YStr canonical)"
    and "lookup_or t ''phases'' (YDict []) = YDict ph"
    and "payloads = map snd (AList.clearjunk ph)"
    and "list_all hashable (actual_phase_ids payloads)"
    and "missing = sorted_list_of_set
           {c \<in> set canonical. YStr c \<notin> set (actual_phase_ids payloads)}"
  shows "validate_temporal_phase_ids temporal errs =
     Inr (errs
       @ (if missing \<noteq> []
          then [[Lit ''temporal_phases.yaml missing phase IDs declared in schema_contract: '',
                 Str (YList (map YStr missing))]]
          else []))
     \<and> set (actual_phase_ids payloads)
         = {i. truthy i \<and> (\<exists>d. YDict d \<in> set payloads \<and> lookup_or d ''id'' YNull = i)}
     \<and> sorted missing \<and> distinct missing
     \<and> set missing = {c \<in> set canonical. YStr c \<notin> set (actual_phase_ids payloads)}"
proof -
  from py_set_strs [of canonical] obtain cs where
    cs: "py_set (YList (map YStr canonical)) = Inr (map YStr cs)" "distinct cs"
      "set cs = set canonical"
    by blast
  have dv: "dict_values (YDict ph) = Inr payloads"
    by (simp add: dict_values_def assms(5))
  let ?actual = "foldl set_add [] (actual_phase_ids payloads)"
  have a: "set_update [] (actual_phase_ids payloads) = Inr ?actual"
    using assms(6) by (simp add: set_update_def)
  have "{c \<in> set cs. YStr c \<notin> set ?actual}
        = {c \<in> set canonical. YStr c \<notin> set (actual_phase_ids payloads)}"
    by (simp add: cs(3) str_in_foldl_set_add)
  then have m: "py_sorted (set_minus (map YStr cs) ?actual) = Inr (map YStr missing)"
    using missing_strs_any [OF cs(2), of ?actual] by (simp add: assms(7))
  have "validate_temporal_phase_ids temporal errs =
     Inr (errs
       @ (if missing \<noteq> []
          then [[Lit ''temporal_phases.yaml missing phase IDs declared in schema_contract: '',
                 Str (YList (map YStr missing))]]
          else []))"
    unfolding validate_temporal_phase_ids_def
    by (simp add: assms(1-4) dict_get_def dv cs(1) a m)
  moreover have "finite {c \<in> set canonical. YStr c \<notin> set (actual_phase_ids payloads)}"
    by simp
  then have "sorted missing" "distinct missing"
    "set missing = {c \<in> set canonical. YStr c \<notin> set (actual_phase_ids payloads)}"
    unfolding assms(7) by simp_all
  ultimately show ?thesis using set_actual_phase_ids [of payloads] by blast
qed

theorem temporal_phase_ids_checks_witness:
  "actual_phase_ids (map snd (AList.clearjunk partial_phases))
     = [YStr ''hyperacute'', YStr ''chronic'']
   \<and> list_all hashable (actual_phase_ids (map snd (AList.clearjunk partial_phases)))
   \<and> validate_temporal_phase_ids (YDict partial_temporal_fields) []
       = Inr [[Lit ''temporal_phases.yaml missing phase IDs declared in schema_contract: '',
               Str (YList [YStr ''acute'', YStr ''subacute''])]]"
proof -
  let ?tc = "[(''canonical_phase_ids'', YList (map YStr canonical_order))]"
  have t1: "lookup_or partial_temporal_fields ''schema_contract'' (YDict []) = YDict ?tc"
    and t3: "lookup_or partial_temporal_fields ''phases'' (YDict []) = YDict partial_phases"
    by (simp_all add: partial_temporal_fields_def lookup_or_def)
  have t2: "lookup_or ?tc ''canonical_phase_ids'' (YList []) = YList (map YStr canonical_order)"
    by (simp add: lookup_or_def)
  have ids: "actual_phase_ids (map snd (AList.clearjunk partial_phases))
     = [YStr ''hyperacute'', YStr ''chronic'']"
    by code_simp
  have h: "list_all hashable (actual_phase_ids (map snd (AList.clearjunk partial_phases)))"
    by (simp add: ids)
  have m: "[''acute'', ''subacute''] = sorted_list_of_set
             {c \<in> set canonical_order.
                YStr c \<notin> set (actual_phase_ids (map snd (AList.clearjunk partial_phases)))}"
  proof -
    have "{c \<in> set canonical_order. YStr c \<notin> set [YStr ''hyperacute'', YStr ''chronic'']}
          = set (filter (\<lambda>c. YStr c \<notin> set [YStr ''hyperacute'', YStr ''chronic''])
                   canonical_order)"
      by auto
    moreover have "sorted_list_of_set
          (set (filter (\<lambda>c. YStr c \<notin> set [YStr ''hyperacute'', YStr ''chronic''])
                  canonical_order)) = [''acute'', ''subacute'']"
      by code_simp
    ultimately show ?thesis unfolding ids by simp
  qed
  note t = temporal_phase_ids_checks [OF refl t1 t2 t3 refl h m, of "[]"]
  have "validate_temporal_phase_ids (YDict partial_temporal_fields) []
       = Inr [[Lit ''temporal_phases.yaml missing phase IDs declared in schema_contract: '',
               Str (YList [YStr ''acute'', YStr ''subacute''])]]"
    using conjunct1 [OF t] by simp
  with ids h show ?thesis by (intro conjI)
qed

end
